theory Spec2Isabelle
  imports Complex_Main "HOL-Library.AList"
begin

section \<open>Data model\<close>

text \<open>
  A test value as \<open>extract_test_results\<close> stores it: the \<open>float\<close> parsed from the
  captured text, or the captured text itself when \<open>float\<close> raised \<open>ValueError\<close>.
  The captured text is made of digits and dots only, so the float is never NaN; the
  classifier only compares it with the constants of the table, and comparison of floats
  is exact, so a float is modelled by the real number it denotes.
\<close>

datatype pyval = Num real | Str string

text \<open>
  The values stored inside one entry of \<open>REFERENCE_RANGES\<close>: a tuple \<open>(lo, hi)\<close>,
  \<open>None\<close>, or a string (unit and concern texts).
\<close>

datatype refval = Bounds real real | NoneVal | Text string

text \<open>The exceptions the classifier can raise.\<close>

datatype error = TypeError | ValueError | KeyError

text \<open>One value of the dict \<open>categorized_results\<close>: \<open>{"value", "status", "concern"}\<close>.\<close>

record result =
  val :: pyval
  status :: string
  concern :: string

text \<open>\<open>patient_info\<close> is a dict from field name to the captured string.\<close>

type_synonym patient_info = "string \<rightharpoonup> string"

type_synonym ref_range = "(string \<times> refval) list"

section \<open>The reference table\<close>

text \<open>
  The bounds of the table are Python literals, read as doubles. A literal that is a
  binary fraction (\<open>13.0\<close>, \<open>16.5\<close>, \<open>2.5\<close>, every integer) denotes itself. One that
  is not (\<open>4.2\<close>, \<open>1.3\<close>, \<open>6.11\<close>, ...) denotes the nearest double, written here as
  \<open>dbl m e\<close>, the number \<open>m / 2 ^ e\<close> with a 53-bit \<open>m\<close>: a value read from the text
  \<open>1.3\<close> is that same double, and the code finds it equal to the bound.
  The bound \<open>5.7\<close> of HBA1C is only used in \<open>value < 5.7\<close>; its double lies above
  \<open>57 / 10\<close> with no double in between, so the decimal decides the comparison as the
  double does on every double (\<open>HBA1C_bound_on_doubles\<close>), and the decimal is kept.
\<close>

definition dbl :: "int \<Rightarrow> nat \<Rightarrow> real" where
  "dbl m e = real_of_int m / 2 ^ e"

definition sex_entry ::
  "real \<times> real \<Rightarrow> real \<times> real \<Rightarrow> string \<Rightarrow> string \<Rightarrow> string \<Rightarrow> ref_range" where
  "sex_entry m f u lc hc =
     [(''male'', Bounds (fst m) (snd m)), (''female'', Bounds (fst f) (snd f)),
      (''unit'', Text u), (''low_concern'', Text lc), (''high_concern'', Text hc)]"

definition REFERENCE_RANGES :: "(string \<times> ref_range) list" where
  "REFERENCE_RANGES =
    [(''HAEMOGLOBIN'', sex_entry (13.0, 16.5) (12.0, 15.5) ''gm%''
        ''Anemia possible'' ''Polycythemia possible''),
     (''RBC'', sex_entry (dbl 4728779608739021 50, dbl 6079859496950170 50)
        (dbl 8106479329266893 51, 5.0) ''mill/c.mm.''
        ''Low RBC count'' ''Elevated RBC count''),
     (''PCV'', sex_entry (38, 42) (36, 40) ''%''
        ''Low hematocrit'' ''Elevated hematocrit''),
     (''MCV'', sex_entry (78, 100) (78, 100) ''fl''
        ''Microcytic anemia possible'' ''Macrocytic anemia possible''),
     (''MCH'', sex_entry (27, 31) (27, 31) ''pg''
        ''Hypochromic anemia possible'' ''Hyperchromic anemia possible''),
     (''MCHC'', sex_entry (32, 36) (32, 36) ''%''
        ''Decreased hemoglobin concentration'' ''Increased hemoglobin concentration''),
     (''WBC'', sex_entry (4500, 10000) (4500, 10000) ''/c.mm.''
        ''Leukopenia - impaired immune response''
        ''Leukocytosis - infection or inflammation possible''),
     (''NEUTROPHILS'', sex_entry (40, 75) (40, 75) ''%''
        ''Neutropenia'' ''Neutrophilia - bacterial infection possible''),
     (''EOSINOPHILS'', sex_entry (0, 6) (0, 6) ''%''
        '''' ''Eosinophilia - allergy or parasitic infection possible''),
     (''BASOPHILS'', sex_entry (0, 1) (0, 1) ''%''
        '''' ''Basophilia - inflammatory or allergic reaction possible''),
     (''LYMPHOCYTES'', sex_entry (20, 45) (20, 45) ''%''
        ''Lymphopenia'' ''Lymphocytosis - viral infection possible''),
     (''MONOCYTES'', sex_entry (2, 10) (2, 10) ''%''
        '''' ''Monocytosis - chronic inflammation possible''),
     (''PLATELETS'', sex_entry (140000, 450000) (140000, 450000) ''/c.mm.''
        ''Thrombocytopenia - bleeding risk'' ''Thrombocytosis - clotting risk''),
     (''CHOLESTEROL_TOTAL'', sex_entry (70, 200) (70, 200) ''mg/dl''
        '''' ''Hypercholesterolemia - increased cardiovascular risk''),
     (''TRIGLYCERIDES'', sex_entry (40, 150) (40, 150) ''mg/dl''
        '''' ''Hypertriglyceridemia - increased cardiovascular risk''),
     (''HDL'', sex_entry (35, 120) (35, 120) ''mg/dl''
        ''Low HDL - increased cardiovascular risk'' ''''),
     (''LDL'',
        [(''normal'', Bounds 0 100), (''borderline'', Bounds 101 130),
         (''high'', Bounds 131 170), (''very_high'', Bounds 171 999),
         (''unit'', Text ''mg/dl''), (''low_concern'', Text ''''),
         (''high_concern'', Text ''Elevated LDL - increased cardiovascular risk'')]),
     (''VLDL'', sex_entry (5, 35) (5, 35) ''mg/dl''
        '''' ''Elevated VLDL - increased cardiovascular risk''),
     (''CHO_HDL_RATIO'', sex_entry (3, 5) (3, 5) ''''
        '''' ''Elevated ratio - increased cardiovascular risk''),
     (''LDL_HDL_RATIO'', sex_entry (2.5, 3.5) (2.5, 3.5) ''''
        '''' ''Elevated ratio - increased cardiovascular risk''),
     (''CREATININE'', sex_entry (dbl 6305039478318694 53, dbl 5854679515581645 52)
        (dbl 5404319552844595 53, dbl 4953959590107546 52) ''mg/dl''
        '''' ''Elevated creatinine - possible kidney dysfunction''),
     (''ALKALINE_PHOSPHATE'', sex_entry (15, 112) (15, 112) ''IU/L''
        '''' ''Elevated ALP - possible liver or bone disorder''),
     (''SGPT'', sex_entry (0, 45) (0, 45) ''IU/L''
        '''' ''Elevated SGPT - possible liver damage''),
     (''TSH'', sex_entry (dbl 7025615418697974 54, dbl 6879248430808433 50)
        (dbl 7025615418697974 54, dbl 6879248430808433 50) ''uIU/ml''
        ''Low TSH - possible hyperthyroidism'' ''Elevated TSH - possible hypothyroidism''),
     (''PSA'',
        [(''male'', Bounds 0 4.0), (''female'', NoneVal), (''unit'', Text ''ng/ml''),
         (''low_concern'', Text ''''),
         (''high_concern'',
            Text ''Elevated PSA - prostate abnormality possible, including cancer'')]),
     (''VITAMIN_B12'',
        [(''deficient'', Bounds 0 200), (''normal'', Bounds 200 900),
         (''excess'', Bounds 900 9999), (''unit'', Text ''pg/ml''),
         (''low_concern'', Text ''B12 deficiency - neurological issues possible''),
         (''high_concern'', Text '''')]),
     (''VITAMIN_D3'',
        [(''deficient'', Bounds 0 20), (''insufficient'', Bounds 20 30),
         (''normal'', Bounds 30 80), (''excess'', Bounds 80 9999),
         (''unit'', Text ''ng/mL''),
         (''low_concern'', Text ''Vitamin D deficiency - bone health risk''),
         (''high_concern'', Text ''Vitamin D excess - hypercalcemia risk'')]),
     (''HBA1C'',
        [(''normal'', Bounds 0 5.7), (''prediabetes'', Bounds 5.7 6.5),
         (''diabetes'', Bounds 6.5 20), (''unit'', Text ''%''),
         (''low_concern'', Text ''''),
         (''high_concern'', Text ''Elevated HbA1c - diabetes or prediabetes'')])]"

section \<open>Strings\<close>

text \<open>
  \<open>str.lower\<close> and \<open>str.upper\<close> on ASCII letters (the sex pattern captures
  \<open>[A-Za-z]+\<close>, and the select box offers \<open>Male\<close> and \<open>Female\<close>); any other
  character is left as it is.
\<close>

definition lower_char :: "char \<Rightarrow> char" where
  "lower_char c =
     (case map_of (zip ''ABCDEFGHIJKLMNOPQRSTUVWXYZ'' ''abcdefghijklmnopqrstuvwxyz'') c of
        None \<Rightarrow> c | Some d \<Rightarrow> d)"

definition upper_char :: "char \<Rightarrow> char" where
  "upper_char c =
     (case map_of (zip ''abcdefghijklmnopqrstuvwxyz'' ''ABCDEFGHIJKLMNOPQRSTUVWXYZ'') c of
        None \<Rightarrow> c | Some d \<Rightarrow> d)"

definition str_lower :: "string \<Rightarrow> string" where
  "str_lower s = map lower_char s"

definition str_upper :: "string \<Rightarrow> string" where
  "str_upper s = map upper_char s"

text \<open>\<open>sub in s\<close> on strings: \<open>sub\<close> occurs in \<open>s\<close> as a contiguous block.\<close>

fun starts_with :: "string \<Rightarrow> string \<Rightarrow> bool" where
  "starts_with [] s = True"
| "starts_with (c # cs) [] = False"
| "starts_with (c # cs) (d # ds) = (c = d \<and> starts_with cs ds)"

fun contains :: "string \<Rightarrow> string \<Rightarrow> bool" where
  "contains sub [] = (sub = [])"
| "contains sub (c # cs) = (starts_with sub (c # cs) \<or> contains sub cs)"

section \<open>Range classification: \<open>categorize_results\<close>\<close>

text \<open>Sequencing of steps that may raise: the first exception ends the evaluation.\<close>

definition ebind :: "error + 'a \<Rightarrow> ('a \<Rightarrow> error + 'b) \<Rightarrow> error + 'b" where
  "ebind m f = (case m of Inl e \<Rightarrow> Inl e | Inr x \<Rightarrow> f x)"

text \<open>
  \<open>ref_range[k][1]\<close>: a missing key raises \<open>KeyError\<close>, \<open>None[1]\<close> raises
  \<open>TypeError\<close>. The table stores a tuple under every tier key the classifier reads; a
  string there would be indexed and its character compared with the value, which is
  given as \<open>TypeError\<close> too.
\<close>

definition tier_upper :: "ref_range \<Rightarrow> string \<Rightarrow> error + real" where
  "tier_upper ref_range k =
     (case map_of ref_range k of
        None \<Rightarrow> Inl KeyError
      | Some (Bounds lo hi) \<Rightarrow> Inr hi
      | Some NoneVal \<Rightarrow> Inl TypeError
      | Some (Text s) \<Rightarrow> Inl TypeError)"

text \<open>
  \<open>ref_range["low_concern"]\<close> and \<open>ref_range["high_concern"]\<close>: the table stores a
  string under both keys of every entry; the other cases are never read.
\<close>

definition concern_of :: "ref_range \<Rightarrow> string \<Rightarrow> error + string" where
  "concern_of ref_range k =
     (case map_of ref_range k of
        None \<Rightarrow> Inl KeyError
      | Some (Text s) \<Rightarrow> Inr s
      | Some NoneVal \<Rightarrow> Inl TypeError
      | Some (Bounds lo hi) \<Rightarrow> Inl TypeError)"

text \<open>\<open>value <= b\<close> and \<open>value < b\<close> for a number \<open>b\<close>: a \<open>str\<close> value raises \<open>TypeError\<close>.\<close>

definition le_val :: "pyval \<Rightarrow> real \<Rightarrow> error + bool" where
  "le_val x b = (case x of Num v \<Rightarrow> Inr (v \<le> b) | Str s \<Rightarrow> Inl TypeError)"

definition lt_val :: "pyval \<Rightarrow> real \<Rightarrow> error + bool" where
  "lt_val x b = (case x of Num v \<Rightarrow> Inr (v < b) | Str s \<Rightarrow> Inl TypeError)"

definition mk :: "pyval \<Rightarrow> string \<Rightarrow> string \<Rightarrow> result" where
  "mk v st c = \<lparr>val = v, status = st, concern = c\<rparr>"

text \<open>The branch \<open>if test == "LDL"\<close>.\<close>

definition categorize_LDL :: "ref_range \<Rightarrow> pyval \<Rightarrow> error + result" where
  "categorize_LDL ref_range v =
     ebind (tier_upper ref_range ''normal'') (\<lambda>b1.
     ebind (le_val v b1) (\<lambda>c1.
       if c1 then Inr (mk v ''normal'' '''')
       else
         ebind (tier_upper ref_range ''borderline'') (\<lambda>b2.
         ebind (le_val v b2) (\<lambda>c2.
           if c2 then
             ebind (concern_of ref_range ''high_concern'') (\<lambda>c. Inr (mk v ''borderline'' c))
           else
             ebind (tier_upper ref_range ''high'') (\<lambda>b3.
             ebind (le_val v b3) (\<lambda>c3.
               if c3 then
                 ebind (concern_of ref_range ''high_concern'')
                   (\<lambda>c. Inr (mk v ''abnormal_high'' c))
               else
                 ebind (concern_of ref_range ''high_concern'')
                   (\<lambda>c. Inr (mk v ''very_abnormal_high'' c))))))))"

text \<open>The branch \<open>elif test == "HBA1C"\<close>.\<close>

definition categorize_HBA1C :: "ref_range \<Rightarrow> pyval \<Rightarrow> error + result" where
  "categorize_HBA1C ref_range v =
     ebind (tier_upper ref_range ''normal'') (\<lambda>b1.
     ebind (lt_val v b1) (\<lambda>c1.
       if c1 then Inr (mk v ''normal'' '''')
       else
         ebind (tier_upper ref_range ''prediabetes'') (\<lambda>b2.
         ebind (lt_val v b2) (\<lambda>c2.
           if c2 then Inr (mk v ''borderline'' ''Prediabetes'')
           else Inr (mk v ''abnormal_high'' ''Diabetes mellitus'')))))"

text \<open>The branch \<open>elif test == "VITAMIN_D3"\<close>.\<close>

definition categorize_VITAMIN_D3 :: "ref_range \<Rightarrow> pyval \<Rightarrow> error + result" where
  "categorize_VITAMIN_D3 ref_range v =
     ebind (tier_upper ref_range ''deficient'') (\<lambda>b1.
     ebind (lt_val v b1) (\<lambda>c1.
       if c1 then Inr (mk v ''abnormal_low'' ''Severe Vitamin D deficiency'')
       else
         ebind (tier_upper ref_range ''insufficient'') (\<lambda>b2.
         ebind (lt_val v b2) (\<lambda>c2.
           if c2 then Inr (mk v ''borderline_low'' ''Vitamin D insufficiency'')
           else
             ebind (tier_upper ref_range ''normal'') (\<lambda>b3.
             ebind (le_val v b3) (\<lambda>c3.
               if c3 then Inr (mk v ''normal'' '''')
               else
                 ebind (concern_of ref_range ''high_concern'')
                   (\<lambda>c. Inr (mk v ''abnormal_high'' c))))))))"

text \<open>The branch \<open>elif test == "VITAMIN_B12"\<close>.\<close>

definition categorize_VITAMIN_B12 :: "ref_range \<Rightarrow> pyval \<Rightarrow> error + result" where
  "categorize_VITAMIN_B12 ref_range v =
     ebind (tier_upper ref_range ''deficient'') (\<lambda>b1.
     ebind (lt_val v b1) (\<lambda>c1.
       if c1 then
         ebind (concern_of ref_range ''low_concern'') (\<lambda>c. Inr (mk v ''abnormal_low'' c))
       else
         ebind (tier_upper ref_range ''normal'') (\<lambda>b2.
         ebind (le_val v b2) (\<lambda>c2.
           if c2 then Inr (mk v ''normal'' '''')
           else Inr (mk v ''abnormal_high'' ''Elevated B12 levels'')))))"

text \<open>
  The body of the branch for regular numeric tests, entered when the value is a number
  and \<open>sex in ref_range\<close>. \<open>lower, upper = ref_range[sex]\<close> unpacks a tuple; unpacking
  \<open>None\<close> raises \<open>TypeError\<close>; unpacking a string raises \<open>ValueError\<close> unless it has
  exactly two characters, and then \<open>value < lower\<close> compares a float with a \<open>str\<close> and
  raises \<open>TypeError\<close>.
\<close>

definition categorize_bounded :: "ref_range \<Rightarrow> string \<Rightarrow> real \<Rightarrow> error + result" where
  "categorize_bounded ref_range sex v =
     (case map_of ref_range sex of
        None \<Rightarrow> Inl KeyError
      | Some NoneVal \<Rightarrow> Inl TypeError
      | Some (Text s) \<Rightarrow> (if length s = 2 then Inl TypeError else Inl ValueError)
      | Some (Bounds lower upper) \<Rightarrow>
          if v < lower then
            ebind (concern_of ref_range ''low_concern'')
              (\<lambda>c. Inr (mk (Num v) ''abnormal_low'' c))
          else if v > upper then
            ebind (concern_of ref_range ''high_concern'')
              (\<lambda>c. Inr (mk (Num v) ''abnormal_high'' c))
          else Inr (mk (Num v) ''normal'' ''''))"

text \<open>The body of the loop \<open>for test, value in test_results.items()\<close>.\<close>

definition categorize_entry :: "string \<Rightarrow> string \<Rightarrow> pyval \<Rightarrow> error + result" where
  "categorize_entry sex test v =
     (case map_of REFERENCE_RANGES test of
        None \<Rightarrow> Inr (mk v ''no_reference'' '''')
      | Some ref_range \<Rightarrow>
          if test = ''LDL'' then categorize_LDL ref_range v
          else if test = ''HBA1C'' then categorize_HBA1C ref_range v
          else if test = ''VITAMIN_D3'' then categorize_VITAMIN_D3 ref_range v
          else if test = ''VITAMIN_B12'' then categorize_VITAMIN_B12 ref_range v
          else
            (case v of
               Num x \<Rightarrow>
                 if map_of ref_range sex \<noteq> None then categorize_bounded ref_range sex x
                 else Inr (mk v ''not_numeric'' '''')
             | Str s \<Rightarrow> Inr (mk v ''not_numeric'' '''')))"

text \<open>
  The loop over the items of the dict \<open>test_results\<close>, in insertion order;
  \<open>categorized_results[test] = ...\<close> is \<open>AList.update\<close> (a new key goes to the end, an
  existing one keeps its place). An exception leaves the loop and the function.
\<close>

fun categorize_loop ::
  "string \<Rightarrow> (string \<times> pyval) list \<Rightarrow> (string \<times> result) list
     \<Rightarrow> error + (string \<times> result) list" where
  "categorize_loop sex [] categorized_results = Inr categorized_results"
| "categorize_loop sex ((test, v) # rest) categorized_results =
     (case categorize_entry sex test v of
        Inl e \<Rightarrow> Inl e
      | Inr r \<Rightarrow> categorize_loop sex rest (AList.update test r categorized_results))"

text \<open>\<open>patient_info.get("sex", d)\<close>.\<close>

definition get_sex :: "patient_info \<Rightarrow> string \<Rightarrow> string" where
  "get_sex patient_info d = (case patient_info ''sex'' of None \<Rightarrow> d | Some s \<Rightarrow> s)"

definition categorize_results ::
  "(string \<times> pyval) list \<Rightarrow> patient_info \<Rightarrow> error + (string \<times> result) list" where
  "categorize_results test_results patient_info =
     (let sex = str_lower (get_sex patient_info ''MALE'')
      in categorize_loop sex test_results [])"

section \<open>Risk aggregation: \<open>create_summary\<close>\<close>

record summary =
  patient_info :: patient_info
  abnormal_count :: nat
  abnormal_tests :: "(string \<times> result) list"
  risk_factors :: "string list"
  recommendations :: "string list"

text \<open>\<open>summary["risk_factors"].append(x)\<close> and \<open>summary["recommendations"].append(x)\<close>.\<close>

definition add_risk :: "string \<Rightarrow> summary \<Rightarrow> summary" where
  "add_risk x s = s\<lparr>risk_factors := risk_factors s @ [x]\<rparr>"

definition add_rec :: "string \<Rightarrow> summary \<Rightarrow> summary" where
  "add_rec x s = s\<lparr>recommendations := recommendations s @ [x]\<rparr>"

text \<open>\<open>k in categorized_results and categorized_results[k]["status"] == st\<close>.\<close>

definition has_status :: "(string \<times> result) list \<Rightarrow> string \<Rightarrow> string \<Rightarrow> bool" where
  "has_status categorized_results k st =
     (case map_of categorized_results k of None \<Rightarrow> False | Some r \<Rightarrow> status r = st)"

text \<open>Check for anemia.\<close>

definition check_anemia :: "(string \<times> result) list \<Rightarrow> summary \<Rightarrow> summary" where
  "check_anemia categorized_results s =
     (if has_status categorized_results ''HAEMOGLOBIN'' ''abnormal_low'' then
        (case map_of categorized_results ''MCV'' of
           None \<Rightarrow> s
         | Some mcv \<Rightarrow>
             if status mcv = ''abnormal_low'' then
               add_rec ''Further investigation for iron deficiency anemia recommended''
                 (add_risk ''Microcytic anemia possible - consider iron deficiency'' s)
             else if status mcv = ''abnormal_high'' then
               add_rec
                 ''Further investigation for vitamin B12 or folate deficiency recommended''
                 (add_risk ''Macrocytic anemia possible - consider B12/folate deficiency'' s)
             else add_risk ''Normocytic anemia possible'' s)
      else s)"

text \<open>Check for infection/inflammation.\<close>

definition check_infection :: "(string \<times> result) list \<Rightarrow> summary \<Rightarrow> summary" where
  "check_infection categorized_results s =
     (if has_status categorized_results ''WBC'' ''abnormal_high'' then
        add_rec ''Monitor for signs of infection or inflammatory conditions''
          (add_risk
             ''Elevated white blood cell count - possible infection or inflammation'' s)
      else s)"

text \<open>Check cardiovascular risk: the flag \<open>has_lipid_concerns\<close>, set by four tests in turn.\<close>

definition has_lipid_concerns :: "(string \<times> result) list \<Rightarrow> bool" where
  "has_lipid_concerns categorized_results =
     (let h = False;
          h = (if has_status categorized_results ''CHOLESTEROL_TOTAL'' ''abnormal_high''
               then True else h);
          h = (if has_status categorized_results ''LDL'' ''abnormal_high'' \<or>
                  has_status categorized_results ''LDL'' ''very_abnormal_high''
               then True else h);
          h = (if has_status categorized_results ''HDL'' ''abnormal_low'' then True else h);
          h = (if has_status categorized_results ''TRIGLYCERIDES'' ''abnormal_high''
               then True else h)
      in h)"

definition check_cardiovascular :: "(string \<times> result) list \<Rightarrow> summary \<Rightarrow> summary" where
  "check_cardiovascular categorized_results s =
     (if has_lipid_concerns categorized_results then
        (let s = add_risk ''Dyslipidemia - increased cardiovascular risk'' s;
             s = add_rec
                   ''Lifestyle modifications recommended; consider dietary changes and exercise''
                   s
         in if has_status categorized_results ''LDL'' ''very_abnormal_high'' then
              add_rec ''Consider consultation with cardiologist for lipid management'' s
            else s)
      else s)"

text \<open>Check diabetes risk.\<close>

definition check_diabetes :: "(string \<times> result) list \<Rightarrow> summary \<Rightarrow> summary" where
  "check_diabetes categorized_results s =
     (case map_of categorized_results ''HBA1C'' of
        None \<Rightarrow> s
      | Some hba1c \<Rightarrow>
          if status hba1c = ''borderline'' then
            add_rec ''Follow-up HbA1c test in 3-6 months''
              (add_rec
                 ''Lifestyle modifications recommended; consider dietary changes and exercise''
                 (add_risk ''Prediabetes'' s))
          else if status hba1c = ''abnormal_high'' then
            add_rec ''Regular blood glucose monitoring''
              (add_rec ''Consultation with endocrinologist recommended''
                 (add_risk ''Diabetes mellitus'' s))
          else s)"

text \<open>Check prostate risk (for males): \<open>patient_info.get("sex", "").upper() == "MALE"\<close>.\<close>

definition check_prostate ::
  "(string \<times> result) list \<Rightarrow> patient_info \<Rightarrow> summary \<Rightarrow> summary" where
  "check_prostate categorized_results pinfo s =
     (if str_upper (get_sex pinfo '''') = ''MALE'' then
        (if has_status categorized_results ''PSA'' ''abnormal_high'' then
           add_rec ''Urologist consultation recommended''
             (add_risk ''Elevated PSA - prostate abnormality possible'' s)
         else s)
      else s)"

text \<open>Check vitamin deficiencies.\<close>

definition check_vitamin_d :: "(string \<times> result) list \<Rightarrow> summary \<Rightarrow> summary" where
  "check_vitamin_d categorized_results s =
     (case map_of categorized_results ''VITAMIN_D3'' of
        None \<Rightarrow> s
      | Some d3 \<Rightarrow>
          if status d3 = ''abnormal_low'' then
            add_rec ''Vitamin D supplementation recommended''
              (add_risk ''Severe Vitamin D deficiency'' s)
          else if status d3 = ''borderline_low'' then
            add_rec ''Consider Vitamin D supplementation''
              (add_risk ''Vitamin D insufficiency'' s)
          else s)"

definition check_vitamin_b12 :: "(string \<times> result) list \<Rightarrow> summary \<Rightarrow> summary" where
  "check_vitamin_b12 categorized_results s =
     (if has_status categorized_results ''VITAMIN_B12'' ''abnormal_low'' then
        add_rec ''Vitamin B12 supplementation recommended''
          (add_risk ''Vitamin B12 deficiency'' s)
      else s)"

text \<open>Check kidney function.\<close>

definition check_kidney :: "(string \<times> result) list \<Rightarrow> summary \<Rightarrow> summary" where
  "check_kidney categorized_results s =
     (if has_status categorized_results ''CREATININE'' ''abnormal_high'' then
        add_rec ''Follow-up kidney function tests recommended''
          (add_risk ''Elevated creatinine - possible kidney dysfunction'' s)
      else s)"

text \<open>Check liver function: the flag \<open>liver_concerns\<close>.\<close>

definition liver_concerns :: "(string \<times> result) list \<Rightarrow> bool" where
  "liver_concerns categorized_results =
     (let l = False;
          l = (if has_status categorized_results ''SGPT'' ''abnormal_high'' then True else l);
          l = (if has_status categorized_results ''ALKALINE_PHOSPHATE'' ''abnormal_high''
               then True else l)
      in l)"

definition check_liver :: "(string \<times> result) list \<Rightarrow> summary \<Rightarrow> summary" where
  "check_liver categorized_results s =
     (if liver_concerns categorized_results then
        add_rec ''Follow-up liver function tests recommended''
          (add_risk ''Possible liver function abnormalities'' s)
      else s)"

text \<open>Check thyroid function.\<close>

definition check_thyroid :: "(string \<times> result) list \<Rightarrow> summary \<Rightarrow> summary" where
  "check_thyroid categorized_results s =
     (case map_of categorized_results ''TSH'' of
        None \<Rightarrow> s
      | Some tsh \<Rightarrow>
          if status tsh = ''abnormal_high'' then
            add_rec ''Consider thyroid profile (T3, T4)''
              (add_risk ''Elevated TSH - possible hypothyroidism'' s)
          else if status tsh = ''abnormal_low'' then
            add_rec ''Consider thyroid profile (T3, T4)''
              (add_risk ''Low TSH - possible hyperthyroidism'' s)
          else s)"

text \<open>If no risk factors identified: \<open>if not summary["risk_factors"]\<close>.\<close>

definition no_risk_default :: "summary \<Rightarrow> summary" where
  "no_risk_default s =
     (if risk_factors s = [] then
        add_rec ''Routine follow-up as per age and gender appropriate guidelines''
          (add_risk ''No significant risk factors identified'' s)
      else s)"

text \<open>The filter of the dict comprehension \<open>abnormal_results\<close>.\<close>

definition is_abnormal :: "result \<Rightarrow> bool" where
  "is_abnormal v = (contains ''abnormal'' (status v) \<or> contains ''borderline'' (status v))"

definition create_summary :: "(string \<times> result) list \<Rightarrow> patient_info \<Rightarrow> summary" where
  "create_summary categorized_results pinfo =
     (let abnormal_results = filter (\<lambda>(k, v). is_abnormal v) categorized_results;
          s = \<lparr>patient_info = pinfo, abnormal_count = length abnormal_results,
               abnormal_tests = abnormal_results, risk_factors = [], recommendations = []\<rparr>;
          s = check_anemia categorized_results s;
          s = check_infection categorized_results s;
          s = check_cardiovascular categorized_results s;
          s = check_diabetes categorized_results s;
          s = check_prostate categorized_results pinfo s;
          s = check_vitamin_d categorized_results s;
          s = check_vitamin_b12 categorized_results s;
          s = check_kidney categorized_results s;
          s = check_liver categorized_results s;
          s = check_thyroid categorized_results s;
          s = no_risk_default s
      in s)"

text \<open>
  The step of \<open>main\<close> between extraction and the calls of \<open>categorize_results\<close> and
  \<open>create_summary\<close>: \<open>if patient_info.get("sex") is None and patient_sex:
  patient_info["sex"] = patient_sex\<close>, where \<open>patient_sex\<close> is the choice of the select
  box (\<open>Male\<close> or \<open>Female\<close>, \<open>Male\<close> when left alone).
\<close>

definition main_sex :: "patient_info \<Rightarrow> string \<Rightarrow> patient_info" where
  "main_sex pinfo patient_sex =
     (if pinfo ''sex'' = None \<and> patient_sex \<noteq> '''' then pinfo(''sex'' \<mapsto> patient_sex)
      else pinfo)"

section \<open>Vocabulary for the properties\<close>

text \<open>
  What a block appends, read off by running it on a summary whose two lists are empty;
  a block fires when it appends something. \<open>inference_blocks\<close> names the ten checks of
  \<open>create_summary\<close> in the order the function runs them, and \<open>appends b\<close> says that
  \<open>b\<close> does nothing but append its own output to the two lists.
\<close>

definition empty_summary :: summary where
  "empty_summary = \<lparr>patient_info = Map.empty, abnormal_count = 0, abnormal_tests = [],
                     risk_factors = [], recommendations = []\<rparr>"

definition block_risks :: "(summary \<Rightarrow> summary) \<Rightarrow> string list" where
  "block_risks b = risk_factors (b empty_summary)"

definition block_recs :: "(summary \<Rightarrow> summary) \<Rightarrow> string list" where
  "block_recs b = recommendations (b empty_summary)"

definition fires :: "(summary \<Rightarrow> summary) \<Rightarrow> bool" where
  "fires b = (block_risks b \<noteq> [] \<or> block_recs b \<noteq> [])"

definition inference_blocks ::
  "(string \<times> result) list \<Rightarrow> patient_info \<Rightarrow> (summary \<Rightarrow> summary) list" where
  "inference_blocks cr pinfo =
     [check_anemia cr, check_infection cr, check_cardiovascular cr, check_diabetes cr,
      check_prostate cr pinfo, check_vitamin_d cr, check_vitamin_b12 cr, check_kidney cr,
      check_liver cr, check_thyroid cr]"

definition appends :: "(summary \<Rightarrow> summary) \<Rightarrow> bool" where
  "appends b = (\<forall>s. b s = s\<lparr>risk_factors := risk_factors s @ block_risks b,
                            recommendations := recommendations s @ block_recs b\<rparr>)"

section \<open>Facts about the classifier\<close>

lemmas classify_defs = categorize_LDL_def categorize_HBA1C_def categorize_VITAMIN_D3_def
  categorize_VITAMIN_B12_def categorize_bounded_def ebind_def tier_upper_def concern_of_def
  le_val_def lt_val_def mk_def

lemma ref_LDL: "map_of REFERENCE_RANGES ''LDL'' = Some
        [(''normal'', Bounds 0 100), (''borderline'', Bounds 101 130),
         (''high'', Bounds 131 170), (''very_high'', Bounds 171 999),
         (''unit'', Text ''mg/dl''), (''low_concern'', Text ''''),
         (''high_concern'', Text ''Elevated LDL - increased cardiovascular risk'')]"
  by (simp add: REFERENCE_RANGES_def)

lemma ref_HBA1C: "map_of REFERENCE_RANGES ''HBA1C'' = Some
        [(''normal'', Bounds 0 5.7), (''prediabetes'', Bounds 5.7 6.5),
         (''diabetes'', Bounds 6.5 20), (''unit'', Text ''%''),
         (''low_concern'', Text ''''),
         (''high_concern'', Text ''Elevated HbA1c - diabetes or prediabetes'')]"
  by (simp add: REFERENCE_RANGES_def)

lemma ref_VITAMIN_D3: "map_of REFERENCE_RANGES ''VITAMIN_D3'' = Some
        [(''deficient'', Bounds 0 20), (''insufficient'', Bounds 20 30),
         (''normal'', Bounds 30 80), (''excess'', Bounds 80 9999),
         (''unit'', Text ''ng/mL''),
         (''low_concern'', Text ''Vitamin D deficiency - bone health risk''),
         (''high_concern'', Text ''Vitamin D excess - hypercalcemia risk'')]"
  by (simp add: REFERENCE_RANGES_def)

lemma ref_VITAMIN_B12: "map_of REFERENCE_RANGES ''VITAMIN_B12'' = Some
        [(''deficient'', Bounds 0 200), (''normal'', Bounds 200 900),
         (''excess'', Bounds 900 9999), (''unit'', Text ''pg/ml''),
         (''low_concern'', Text ''B12 deficiency - neurological issues possible''),
         (''high_concern'', Text '''')]"
  by (simp add: REFERENCE_RANGES_def)

lemma entry_LDL:
  "categorize_entry sex ''LDL'' (Num v) = Inr \<lparr>val = Num v,
      status = (if v \<le> 100 then ''normal'' else if v \<le> 130 then ''borderline''
                else if v \<le> 170 then ''abnormal_high'' else ''very_abnormal_high''),
      concern = (if v \<le> 100 then '''' else ''Elevated LDL - increased cardiovascular risk'')\<rparr>"
  by (simp add: categorize_entry_def ref_LDL classify_defs)

lemma entry_HBA1C:
  "categorize_entry sex ''HBA1C'' (Num v) = Inr \<lparr>val = Num v,
      status = (if v < 5.7 then ''normal'' else if v < 6.5 then ''borderline''
                else ''abnormal_high''),
      concern = (if v < 5.7 then '''' else if v < 6.5 then ''Prediabetes''
                 else ''Diabetes mellitus'')\<rparr>"
  by (simp add: categorize_entry_def ref_HBA1C classify_defs)

lemma entry_VITAMIN_D3:
  "categorize_entry sex ''VITAMIN_D3'' (Num v) = Inr \<lparr>val = Num v,
      status = (if v < 20 then ''abnormal_low'' else if v < 30 then ''borderline_low''
                else if v \<le> 80 then ''normal'' else ''abnormal_high''),
      concern = (if v < 20 then ''Severe Vitamin D deficiency''
                 else if v < 30 then ''Vitamin D insufficiency''
                 else if v \<le> 80 then '''' else ''Vitamin D excess - hypercalcemia risk'')\<rparr>"
  by (simp add: categorize_entry_def ref_VITAMIN_D3 classify_defs)

lemma entry_VITAMIN_B12:
  "categorize_entry sex ''VITAMIN_B12'' (Num v) = Inr \<lparr>val = Num v,
      status = (if v < 200 then ''abnormal_low'' else if v \<le> 900 then ''normal''
                else ''abnormal_high''),
      concern = (if v < 200 then ''B12 deficiency - neurological issues possible''
                 else if v \<le> 900 then '''' else ''Elevated B12 levels'')\<rparr>"
  by (simp add: categorize_entry_def ref_VITAMIN_B12 classify_defs)

lemma results_single:
  "categorize_results [(t, v)] pinfo =
     (case categorize_entry (str_lower (get_sex pinfo ''MALE'')) t v of
        Inl e \<Rightarrow> Inl e | Inr r \<Rightarrow> Inr [(t, r)])"
  by (simp add: categorize_results_def split: sum.splits)

lemma categorize_loop_other:
  "categorize_loop sex trs acc = Inr res \<Longrightarrow> t \<notin> fst ` set trs \<Longrightarrow>
     map_of res t = map_of acc t"
proof (induction trs arbitrary: acc)
  case Nil
  then show ?case by simp
next
  case (Cons p trs)
  obtain k v where p: "p = (k, v)" by (cases p)
  from Cons.prems(1) p obtain r where r: "categorize_entry sex k v = Inr r"
    and rest: "categorize_loop sex trs (AList.update k r acc) = Inr res"
    by (auto split: sum.splits)
  from Cons.prems(2) p have "t \<noteq> k" and "t \<notin> fst ` set trs" by auto
  with Cons.IH [OF rest] show ?case by (simp add: update_conv')
qed

lemma categorize_loop_lookup:
  "categorize_loop sex trs acc = Inr res \<Longrightarrow> distinct (map fst trs) \<Longrightarrow>
     (t, v) \<in> set trs \<Longrightarrow> \<exists>r. categorize_entry sex t v = Inr r \<and> map_of res t = Some r"
proof (induction trs arbitrary: acc)
  case Nil
  then show ?case by simp
next
  case (Cons p trs)
  obtain k w where p: "p = (k, w)" by (cases p)
  from Cons.prems(1) p obtain r where r: "categorize_entry sex k w = Inr r"
    and rest: "categorize_loop sex trs (AList.update k r acc) = Inr res"
    by (auto split: sum.splits)
  from Cons.prems(2) p have fresh: "k \<notin> fst ` set trs" and dist: "distinct (map fst trs)"
    by auto
  show ?case
  proof (cases "(t, v) = (k, w)")
    case True
    with categorize_loop_other [OF rest fresh] r show ?thesis
      by (simp add: update_conv')
  next
    case False
    with Cons.prems(3) p have "(t, v) \<in> set trs" by auto
    from Cons.IH [OF rest dist this] show ?thesis .
  qed
qed

lemma categorize_results_lookup:
  "categorize_results trs pinfo = Inr res \<Longrightarrow> distinct (map fst trs) \<Longrightarrow>
     (t, v) \<in> set trs \<Longrightarrow>
     \<exists>r. categorize_entry (str_lower (get_sex pinfo ''MALE'')) t v = Inr r \<and>
         map_of res t = Some r"
  unfolding categorize_results_def Let_def by (rule categorize_loop_lookup)

lemma entry_HAEMOGLOBIN_male:
  "categorize_entry ''male'' ''HAEMOGLOBIN'' (Num v) = Inr \<lparr>val = Num v,
      status = (if v < 13 then ''abnormal_low'' else if v > 16.5 then ''abnormal_high''
                else ''normal''),
      concern = (if v < 13 then ''Anemia possible'' else if v > 16.5
                 then ''Polycythemia possible'' else '''')\<rparr>"
  by (simp add: categorize_entry_def REFERENCE_RANGES_def sex_entry_def classify_defs)

lemma entry_MCV_male:
  "categorize_entry ''male'' ''MCV'' (Num v) = Inr \<lparr>val = Num v,
      status = (if v < 78 then ''abnormal_low'' else if v > 100 then ''abnormal_high''
                else ''normal''),
      concern = (if v < 78 then ''Microcytic anemia possible'' else if v > 100
                 then ''Macrocytic anemia possible'' else '''')\<rparr>"
  by (simp add: categorize_entry_def REFERENCE_RANGES_def sex_entry_def classify_defs)

lemma entry_PSA_male:
  "categorize_entry ''male'' ''PSA'' (Num v) = Inr \<lparr>val = Num v,
      status = (if v < 0 then ''abnormal_low'' else if v > 4 then ''abnormal_high''
                else ''normal''),
      concern = (if v < 0 then '''' else if v > 4
                 then ''Elevated PSA - prostate abnormality possible, including cancer''
                 else '''')\<rparr>"
  by (simp add: categorize_entry_def REFERENCE_RANGES_def classify_defs)

lemma str_lower_sex: "str_lower ''MALE'' = ''male''" "str_lower ''male'' = ''male''"
  "str_lower ''Male'' = ''male''" "str_lower ''Female'' = ''female''"
  "str_lower ''unit'' = ''unit''"
  by (simp_all add: str_lower_def lower_char_def)

lemma str_upper_sex: "str_upper ''male'' = ''MALE''" "str_upper ''Male'' = ''MALE''"
  "str_upper '''' = ''''"
  by (simp_all add: str_upper_def upper_char_def)

lemma table_shape:
  "\<forall>(t, r) \<in> set REFERENCE_RANGES.
     t \<notin> {''LDL'', ''HBA1C'', ''VITAMIN_D3'', ''VITAMIN_B12''} \<longrightarrow>
     map fst r = [''male'', ''female'', ''unit'', ''low_concern'', ''high_concern''] \<and>
     (case map_of r ''male'' of Some (Bounds lo hi) \<Rightarrow> True | _ \<Rightarrow> False) \<and>
     (case map_of r ''female'' of
        Some (Bounds lo hi) \<Rightarrow> t \<noteq> ''PSA'' | Some NoneVal \<Rightarrow> t = ''PSA'' | _ \<Rightarrow> False) \<and>
     (case map_of r ''low_concern'' of Some (Text s) \<Rightarrow> True | _ \<Rightarrow> False) \<and>
     (case map_of r ''high_concern'' of Some (Text s) \<Rightarrow> True | _ \<Rightarrow> False)"
  by (simp add: REFERENCE_RANGES_def sex_entry_def)

lemma sex_bounded_shape:
  assumes "map_of REFERENCE_RANGES t = Some r"
    and "t \<notin> {''LDL'', ''HBA1C'', ''VITAMIN_D3'', ''VITAMIN_B12''}"
  shows "map fst r = [''male'', ''female'', ''unit'', ''low_concern'', ''high_concern'']"
    and "\<exists>lo hi. map_of r ''male'' = Some (Bounds lo hi)"
    and "t \<noteq> ''PSA'' \<Longrightarrow> \<exists>lo hi. map_of r ''female'' = Some (Bounds lo hi)"
    and "t = ''PSA'' \<Longrightarrow> map_of r ''female'' = Some NoneVal"
    and "\<exists>s. map_of r ''low_concern'' = Some (Text s)"
    and "\<exists>s. map_of r ''high_concern'' = Some (Text s)"
proof -
  from assms(1) have "(t, r) \<in> set REFERENCE_RANGES" by (rule map_of_SomeD)
  with table_shape assms(2) have
    s: "map fst r = [''male'', ''female'', ''unit'', ''low_concern'', ''high_concern''] \<and>
     (case map_of r ''male'' of Some (Bounds lo hi) \<Rightarrow> True | _ \<Rightarrow> False) \<and>
     (case map_of r ''female'' of
        Some (Bounds lo hi) \<Rightarrow> t \<noteq> ''PSA'' | Some NoneVal \<Rightarrow> t = ''PSA'' | _ \<Rightarrow> False) \<and>
     (case map_of r ''low_concern'' of Some (Text s) \<Rightarrow> True | _ \<Rightarrow> False) \<and>
     (case map_of r ''high_concern'' of Some (Text s) \<Rightarrow> True | _ \<Rightarrow> False)"
    by fast
  from s show "map fst r = [''male'', ''female'', ''unit'', ''low_concern'', ''high_concern'']"
    by simp
  from s show "\<exists>lo hi. map_of r ''male'' = Some (Bounds lo hi)"
    by (auto split: option.splits refval.splits)
  show "\<exists>lo hi. map_of r ''female'' = Some (Bounds lo hi)" if "t \<noteq> ''PSA''"
    using s that by (auto split: option.splits refval.splits)
  show "map_of r ''female'' = Some NoneVal" if "t = ''PSA''"
    using s that by (auto split: option.splits refval.splits)
  from s show "\<exists>s. map_of r ''low_concern'' = Some (Text s)"
    by (auto split: option.splits refval.splits)
  from s show "\<exists>s. map_of r ''high_concern'' = Some (Text s)"
    by (auto split: option.splits refval.splits)
qed

lemma categorize_entry_defaults:
  "map_of REFERENCE_RANGES t = None \<Longrightarrow>
     categorize_entry sex t v = Inr \<lparr>val = v, status = ''no_reference'', concern = ''''\<rparr>"
  "map_of REFERENCE_RANGES t = Some r \<Longrightarrow>
     t \<notin> {''LDL'', ''HBA1C'', ''VITAMIN_D3'', ''VITAMIN_B12''} \<Longrightarrow>
     categorize_entry sex t (Str x) =
       Inr \<lparr>val = Str x, status = ''not_numeric'', concern = ''''\<rparr>"
  "map_of REFERENCE_RANGES t = Some r \<Longrightarrow>
     t \<notin> {''LDL'', ''HBA1C'', ''VITAMIN_D3'', ''VITAMIN_B12''} \<Longrightarrow>
     sex \<notin> {''male'', ''female'', ''unit'', ''low_concern'', ''high_concern''} \<Longrightarrow>
     categorize_entry sex t (Num n) =
       Inr \<lparr>val = Num n, status = ''not_numeric'', concern = ''''\<rparr>"
proof -
  show "categorize_entry sex t v = Inr \<lparr>val = v, status = ''no_reference'', concern = ''''\<rparr>"
    if "map_of REFERENCE_RANGES t = None"
    using that by (simp add: categorize_entry_def mk_def)
  show "categorize_entry sex t (Str x) =
       Inr \<lparr>val = Str x, status = ''not_numeric'', concern = ''''\<rparr>"
    if "map_of REFERENCE_RANGES t = Some r"
      "t \<notin> {''LDL'', ''HBA1C'', ''VITAMIN_D3'', ''VITAMIN_B12''}"
    using that by (simp add: categorize_entry_def mk_def)
  show "categorize_entry sex t (Num n) =
       Inr \<lparr>val = Num n, status = ''not_numeric'', concern = ''''\<rparr>"
    if r: "map_of REFERENCE_RANGES t = Some r"
      and t: "t \<notin> {''LDL'', ''HBA1C'', ''VITAMIN_D3'', ''VITAMIN_B12''}"
      and s: "sex \<notin> {''male'', ''female'', ''unit'', ''low_concern'', ''high_concern''}"
  proof -
    from sex_bounded_shape(1) [OF r t] s have "sex \<notin> fst ` set r"
      by (simp only: set_map [symmetric]) simp
    then have "map_of r sex = None" by (simp add: map_of_eq_None_iff)
    with r t show ?thesis by (simp add: categorize_entry_def mk_def)
  qed
qed

lemma categorize_entry_sex_bounded:
  assumes r: "map_of REFERENCE_RANGES t = Some r"
    and t: "t \<notin> {''LDL'', ''HBA1C'', ''VITAMIN_D3'', ''VITAMIN_B12''}"
    and s: "sex = ''male'' \<or> (sex = ''female'' \<and> t \<noteq> ''PSA'')"
  shows "\<exists>st c. categorize_entry sex t (Num n) = Inr \<lparr>val = Num n, status = st, concern = c\<rparr> \<and>
           st \<in> {''abnormal_low'', ''abnormal_high'', ''normal''}"
proof -
  from s sex_bounded_shape(2,3) [OF r t] obtain lo hi where
    b: "map_of r sex = Some (Bounds lo hi)" by auto
  from sex_bounded_shape(5,6) [OF r t] obtain lc hc where
    c: "map_of r ''low_concern'' = Some (Text lc)" "map_of r ''high_concern'' = Some (Text hc)"
    by auto
  from r t b c show ?thesis
    by (simp add: categorize_entry_def classify_defs)
qed

text \<open>
  The doubles of the table: each is within half a unit in the last place of the decimal
  literal it stands for, with a 53-bit mantissa. At a value equal to such a bound the
  classification is \<open>normal\<close>, as in the code.
\<close>

lemma dbl_nearest:
  "\<bar>dbl 4728779608739021 50 - 4.2\<bar> \<le> 1 / 2 ^ 51"
  "\<bar>dbl 6079859496950170 50 - 5.4\<bar> \<le> 1 / 2 ^ 51"
  "\<bar>dbl 8106479329266893 51 - 3.6\<bar> \<le> 1 / 2 ^ 52"
  "\<bar>dbl 6305039478318694 53 - 0.7\<bar> \<le> 1 / 2 ^ 54"
  "\<bar>dbl 5854679515581645 52 - 1.3\<bar> \<le> 1 / 2 ^ 53"
  "\<bar>dbl 5404319552844595 53 - 0.6\<bar> \<le> 1 / 2 ^ 54"
  "\<bar>dbl 4953959590107546 52 - 1.1\<bar> \<le> 1 / 2 ^ 53"
  "\<bar>dbl 7025615418697974 54 - 0.39\<bar> \<le> 1 / 2 ^ 55"
  "\<bar>dbl 6879248430808433 50 - 6.11\<bar> \<le> 1 / 2 ^ 51"
  by (simp_all add: dbl_def)

lemma dbl_mantissa:
  "\<forall>m \<in> {4728779608739021, 6079859496950170, 8106479329266893, 6305039478318694,
          5854679515581645, 5404319552844595, 4953959590107546, 7025615418697974,
          6879248430808433 :: int}. 2 ^ 52 \<le> m \<and> m < 2 ^ 53"
  by simp

lemma HBA1C_bound_on_doubles:
  assumes "v < 4 \<or> (\<exists>m :: int. v = dbl m 50)"
  shows "v < 5.7 \<longleftrightarrow> v < dbl 6417629469002957 50"
  using assms
proof
  assume "v < 4"
  then show ?thesis by (simp add: dbl_def)
next
  assume "\<exists>m :: int. v = dbl m 50"
  then obtain m :: int where v: "v = real_of_int m / 2 ^ 50" by (auto simp: dbl_def)
  have a: "v < 5.7 \<longleftrightarrow> real_of_int (10 * m) < real_of_int 64176294690029568"
    unfolding v by (simp add: field_simps)
  have b: "v < dbl 6417629469002957 50 \<longleftrightarrow> real_of_int m < real_of_int 6417629469002957"
    unfolding v dbl_def by (simp add: field_simps)
  have c: "10 * m < 64176294690029568 \<longleftrightarrow> m < 6417629469002957" by presburger
  show ?thesis unfolding a b of_int_less_iff by (rule c)
qed

lemma entry_CREATININE_male:
  "categorize_entry ''male'' ''CREATININE'' (Num v) = Inr \<lparr>val = Num v,
      status = (if v < dbl 6305039478318694 53 then ''abnormal_low''
                else if v > dbl 5854679515581645 52 then ''abnormal_high'' else ''normal''),
      concern = (if v < dbl 6305039478318694 53 then ''''
                 else if v > dbl 5854679515581645 52
                 then ''Elevated creatinine - possible kidney dysfunction'' else '''')\<rparr>"
  by (simp add: categorize_entry_def REFERENCE_RANGES_def sex_entry_def classify_defs)

lemma CREATININE_at_bound:
  "categorize_results [(''CREATININE'', Num (dbl 5854679515581645 52))] [''sex'' \<mapsto> ''Male''] =
     Inr [(''CREATININE'', \<lparr>val = Num (dbl 5854679515581645 52), status = ''normal'',
            concern = ''''\<rparr>)]"
  by (simp add: results_single get_sex_def str_lower_sex entry_CREATININE_male)
    (simp add: dbl_def)

section \<open>Facts about the summary\<close>

lemmas out_defs = appends_def block_risks_def block_recs_def empty_summary_def
  add_risk_def add_rec_def

lemma starts_with_iff: "starts_with sub s \<longleftrightarrow> (\<exists>q. s = sub @ q)"
  by (induction sub s rule: starts_with.induct) auto

lemma contains_iff: "contains sub s \<longleftrightarrow> (\<exists>p q. s = p @ sub @ q)"
proof (induction s)
  case Nil
  then show ?case by simp
next
  case (Cons c cs)
  show ?case
  proof
    assume "contains sub (c # cs)"
    then consider "starts_with sub (c # cs)" | "contains sub cs" by auto
    then show "\<exists>p q. c # cs = p @ sub @ q"
    proof cases
      case 1
      then obtain q where "c # cs = [] @ sub @ q" by (auto simp: starts_with_iff)
      then show ?thesis by blast
    next
      case 2
      with Cons.IH obtain p q where "cs = p @ sub @ q" by blast
      then have "c # cs = (c # p) @ sub @ q" by simp
      then show ?thesis by blast
    qed
  next
    assume "\<exists>p q. c # cs = p @ sub @ q"
    then obtain p q where e: "c # cs = p @ sub @ q" by blast
    show "contains sub (c # cs)"
    proof (cases p)
      case Nil
      with e have "starts_with sub (c # cs)" by (auto simp: starts_with_iff)
      then show ?thesis by simp
    next
      case (Cons d p')
      with e have "cs = p' @ sub @ q" by simp
      with Cons.IH have "contains sub cs" by blast
      then show ?thesis by simp
    qed
  qed
qed

lemma appends_anemia: "appends (check_anemia cr)"
  by (simp add: out_defs check_anemia_def split: option.splits)

lemma appends_infection: "appends (check_infection cr)"
  by (simp add: out_defs check_infection_def)

lemma appends_cardiovascular: "appends (check_cardiovascular cr)"
  by (simp add: out_defs check_cardiovascular_def Let_def)

lemma appends_diabetes: "appends (check_diabetes cr)"
  by (simp add: out_defs check_diabetes_def split: option.splits)

lemma appends_prostate: "appends (check_prostate cr pinfo)"
  by (simp add: out_defs check_prostate_def)

lemma appends_vitamin_d: "appends (check_vitamin_d cr)"
  by (simp add: out_defs check_vitamin_d_def split: option.splits)

lemma appends_vitamin_b12: "appends (check_vitamin_b12 cr)"
  by (simp add: out_defs check_vitamin_b12_def)

lemma appends_kidney: "appends (check_kidney cr)"
  by (simp add: out_defs check_kidney_def)

lemma appends_liver: "appends (check_liver cr)"
  by (simp add: out_defs check_liver_def)

lemma appends_thyroid: "appends (check_thyroid cr)"
  by (simp add: out_defs check_thyroid_def split: option.splits)

lemmas appends_blocks = appends_anemia appends_infection appends_cardiovascular
  appends_diabetes appends_prostate appends_vitamin_d appends_vitamin_b12 appends_kidney
  appends_liver appends_thyroid

lemma inference_blocks_append: "b \<in> set (inference_blocks cr pinfo) \<Longrightarrow> appends b"
  by (auto simp: inference_blocks_def appends_blocks)

lemma foldl_appends:
  "\<forall>b \<in> set bs. appends b \<Longrightarrow>
     foldl (\<lambda>s b. b s) s bs =
       s\<lparr>risk_factors := risk_factors s @ concat (map block_risks bs),
         recommendations := recommendations s @ concat (map block_recs bs)\<rparr>"
proof (induction bs arbitrary: s)
  case Nil
  then show ?case by simp
next
  case (Cons b bs)
  from Cons.prems have b: "b s = s\<lparr>risk_factors := risk_factors s @ block_risks b,
      recommendations := recommendations s @ block_recs b\<rparr>"
    by (simp add: appends_def)
  from Cons.prems have "\<forall>b \<in> set bs. appends b" by simp
  from Cons.IH [OF this, of "b s"] show ?case by (simp add: b)
qed

lemma create_summary_foldl:
  "create_summary cr pinfo =
     no_risk_default (foldl (\<lambda>s b. b s)
       \<lparr>patient_info = pinfo,
         abnormal_count = length (filter (\<lambda>(k, v). is_abnormal v) cr),
         abnormal_tests = filter (\<lambda>(k, v). is_abnormal v) cr,
         risk_factors = [], recommendations = []\<rparr>
       (inference_blocks cr pinfo))"
  by (simp add: create_summary_def inference_blocks_def Let_def)

lemma create_summary_eq:
  "create_summary cr pinfo =
     \<lparr>patient_info = pinfo,
       abnormal_count = length (filter (\<lambda>(k, v). is_abnormal v) cr),
       abnormal_tests = filter (\<lambda>(k, v). is_abnormal v) cr,
       risk_factors =
         (if concat (map block_risks (inference_blocks cr pinfo)) = []
          then [''No significant risk factors identified'']
          else concat (map block_risks (inference_blocks cr pinfo))),
       recommendations =
         (if concat (map block_risks (inference_blocks cr pinfo)) = []
          then concat (map block_recs (inference_blocks cr pinfo)) @
                 [''Routine follow-up as per age and gender appropriate guidelines'']
          else concat (map block_recs (inference_blocks cr pinfo)))\<rparr>"
proof -
  have "\<forall>b \<in> set (inference_blocks cr pinfo). appends b"
    by (simp add: inference_blocks_append)
  from foldl_appends [OF this] show ?thesis
    by (simp add: create_summary_foldl no_risk_default_def add_risk_def add_rec_def)
qed

lemma risks_empty_recs_empty:
  "b \<in> set (inference_blocks cr pinfo) \<Longrightarrow> block_risks b = [] \<Longrightarrow> block_recs b = []"
  unfolding inference_blocks_def
  by (auto simp: block_risks_def block_recs_def empty_summary_def add_risk_def add_rec_def
      check_anemia_def check_infection_def check_cardiovascular_def check_diabetes_def
      check_prostate_def check_vitamin_d_def check_vitamin_b12_def check_kidney_def
      check_liver_def check_thyroid_def Let_def split: option.splits if_splits)


lemmas block_defs = check_anemia_def check_infection_def check_cardiovascular_def
  check_diabetes_def check_prostate_def check_vitamin_d_def check_vitamin_b12_def
  check_kidney_def check_liver_def check_thyroid_def has_lipid_concerns_def
  liver_concerns_def has_status_def

lemmas eval_defs = block_risks_def block_recs_def empty_summary_def add_risk_def add_rec_def

lemma has_statusD: "has_status cr k st \<Longrightarrow> \<exists>r. (k, r) \<in> set cr \<and> status r = st"
  by (auto simp: has_status_def split: option.splits dest: map_of_SomeD)

lemma abnormal_statuses:
  "status r \<in> {''abnormal_low'', ''abnormal_high'', ''very_abnormal_high'', ''borderline'',
               ''borderline_low''} \<Longrightarrow> is_abnormal r"
  by (auto simp: is_abnormal_def)

lemma has_status_abnormal:
  "has_status cr k st \<Longrightarrow>
   st \<in> {''abnormal_low'', ''abnormal_high'', ''very_abnormal_high'', ''borderline'',
         ''borderline_low''} \<Longrightarrow> \<exists>k r. (k, r) \<in> set cr \<and> is_abnormal r"
proof -
  assume h: "has_status cr k st" and st: "st \<in> {''abnormal_low'', ''abnormal_high'',
    ''very_abnormal_high'', ''borderline'', ''borderline_low''}"
  from has_statusD [OF h] obtain r where r: "(k, r) \<in> set cr" "status r = st" by blast
  with st have "is_abnormal r" by (intro abnormal_statuses) simp
  with r show ?thesis by blast
qed

lemma lookup_abnormal:
  "map_of cr k = Some r \<Longrightarrow>
   status r \<in> {''abnormal_low'', ''abnormal_high'', ''very_abnormal_high'', ''borderline'',
         ''borderline_low''} \<Longrightarrow> \<exists>k r. (k, r) \<in> set cr \<and> is_abnormal r"
  using abnormal_statuses map_of_SomeD by fast

lemma fires_anemia: "fires (check_anemia cr) \<Longrightarrow> \<exists>k r. (k, r) \<in> set cr \<and> is_abnormal r"
  unfolding fires_def check_anemia_def
  by (auto simp: eval_defs split: if_splits option.splits
      dest: has_status_abnormal [where st = "''abnormal_low''"])

lemma fires_infection: "fires (check_infection cr) \<Longrightarrow> \<exists>k r. (k, r) \<in> set cr \<and> is_abnormal r"
  unfolding fires_def check_infection_def
  by (auto simp: eval_defs split: if_splits
      dest: has_status_abnormal [where st = "''abnormal_high''"])

lemma fires_cardiovascular:
  "fires (check_cardiovascular cr) \<Longrightarrow> \<exists>k r. (k, r) \<in> set cr \<and> is_abnormal r"
proof -
  assume "fires (check_cardiovascular cr)"
  then have "has_lipid_concerns cr"
    by (auto simp: fires_def check_cardiovascular_def eval_defs split: if_splits)
  then consider "has_status cr ''CHOLESTEROL_TOTAL'' ''abnormal_high''"
    | "has_status cr ''LDL'' ''abnormal_high''"
    | "has_status cr ''LDL'' ''very_abnormal_high''"
    | "has_status cr ''HDL'' ''abnormal_low''"
    | "has_status cr ''TRIGLYCERIDES'' ''abnormal_high''"
    by (auto simp: has_lipid_concerns_def Let_def split: if_splits)
  then show ?thesis
    by cases (erule has_status_abnormal, simp)+
qed

lemma fires_diabetes: "fires (check_diabetes cr) \<Longrightarrow> \<exists>k r. (k, r) \<in> set cr \<and> is_abnormal r"
proof -
  assume "fires (check_diabetes cr)"
  then obtain r where "map_of cr ''HBA1C'' = Some r"
    "status r = ''borderline'' \<or> status r = ''abnormal_high''"
    by (auto simp: fires_def check_diabetes_def eval_defs split: if_splits option.splits)
  then show ?thesis by (intro lookup_abnormal [of cr "''HBA1C''" r]) auto
qed

lemma fires_prostate:
  "fires (check_prostate cr pinfo) \<Longrightarrow> \<exists>k r. (k, r) \<in> set cr \<and> is_abnormal r"
  unfolding fires_def check_prostate_def
  by (auto simp: eval_defs split: if_splits
      dest: has_status_abnormal [where st = "''abnormal_high''"])

lemma fires_vitamin_d: "fires (check_vitamin_d cr) \<Longrightarrow> \<exists>k r. (k, r) \<in> set cr \<and> is_abnormal r"
proof -
  assume "fires (check_vitamin_d cr)"
  then obtain r where "map_of cr ''VITAMIN_D3'' = Some r"
    "status r = ''abnormal_low'' \<or> status r = ''borderline_low''"
    by (auto simp: fires_def check_vitamin_d_def eval_defs split: if_splits option.splits)
  then show ?thesis by (intro lookup_abnormal [of cr "''VITAMIN_D3''" r]) auto
qed

lemma fires_vitamin_b12:
  "fires (check_vitamin_b12 cr) \<Longrightarrow> \<exists>k r. (k, r) \<in> set cr \<and> is_abnormal r"
  unfolding fires_def check_vitamin_b12_def
  by (auto simp: eval_defs split: if_splits
      dest: has_status_abnormal [where st = "''abnormal_low''"])

lemma fires_kidney: "fires (check_kidney cr) \<Longrightarrow> \<exists>k r. (k, r) \<in> set cr \<and> is_abnormal r"
  unfolding fires_def check_kidney_def
  by (auto simp: eval_defs split: if_splits
      dest: has_status_abnormal [where st = "''abnormal_high''"])

lemma fires_liver: "fires (check_liver cr) \<Longrightarrow> \<exists>k r. (k, r) \<in> set cr \<and> is_abnormal r"
proof -
  assume "fires (check_liver cr)"
  then have "liver_concerns cr"
    by (auto simp: fires_def check_liver_def eval_defs split: if_splits)
  then consider "has_status cr ''SGPT'' ''abnormal_high''"
    | "has_status cr ''ALKALINE_PHOSPHATE'' ''abnormal_high''"
    by (auto simp: liver_concerns_def Let_def split: if_splits)
  then show ?thesis
    by cases (erule has_status_abnormal, simp)+
qed

lemma fires_thyroid: "fires (check_thyroid cr) \<Longrightarrow> \<exists>k r. (k, r) \<in> set cr \<and> is_abnormal r"
proof -
  assume "fires (check_thyroid cr)"
  then obtain r where "map_of cr ''TSH'' = Some r"
    "status r = ''abnormal_high'' \<or> status r = ''abnormal_low''"
    by (auto simp: fires_def check_thyroid_def eval_defs split: if_splits option.splits)
  then show ?thesis by (intro lookup_abnormal [of cr "''TSH''" r]) auto
qed

lemma fires_needs_abnormal:
  "b \<in> set (inference_blocks cr pinfo) \<Longrightarrow> fires b \<Longrightarrow>
     \<exists>k r. (k, r) \<in> set cr \<and> is_abnormal r"
  unfolding inference_blocks_def
  using fires_anemia fires_infection fires_cardiovascular fires_diabetes fires_prostate
    fires_vitamin_d fires_vitamin_b12 fires_kidney fires_liver fires_thyroid
  by auto

lemma no_block_fires_lists:
  "\<forall>b \<in> set bs. \<not> fires b \<Longrightarrow>
     concat (map block_risks bs) = [] \<and> concat (map block_recs bs) = []"
  by (induction bs) (auto simp: fires_def)

lemma is_abnormal_iff:
  "is_abnormal r \<longleftrightarrow>
     (\<exists>p q. status r = p @ ''abnormal'' @ q) \<or> (\<exists>p q. status r = p @ ''borderline'' @ q)"
  by (simp only: is_abnormal_def contains_iff)

lemma blocks_same_map:
  "map_of cr' = map_of cr \<Longrightarrow> inference_blocks cr' pinfo = inference_blocks cr pinfo"
  by (simp add: inference_blocks_def block_defs fun_eq_iff)

lemma summary_lists:
  "risk_factors (create_summary cr pinfo) =
     (if \<exists>b \<in> set (inference_blocks cr pinfo). fires b
      then concat (map block_risks (inference_blocks cr pinfo))
      else [''No significant risk factors identified''])"
  "recommendations (create_summary cr pinfo) =
     (if \<exists>b \<in> set (inference_blocks cr pinfo). fires b
      then concat (map block_recs (inference_blocks cr pinfo))
      else [''Routine follow-up as per age and gender appropriate guidelines''])"
proof -
  have iff: "(\<exists>b \<in> set (inference_blocks cr pinfo). fires b) \<longleftrightarrow>
      concat (map block_risks (inference_blocks cr pinfo)) \<noteq> []"
    using risks_empty_recs_empty [of _ cr pinfo] by (auto simp: fires_def)
  have "concat (map block_risks (inference_blocks cr pinfo)) = [] \<Longrightarrow>
      concat (map block_recs (inference_blocks cr pinfo)) = []"
    using risks_empty_recs_empty [of _ cr pinfo] by auto
  with iff show "risk_factors (create_summary cr pinfo) =
     (if \<exists>b \<in> set (inference_blocks cr pinfo). fires b
      then concat (map block_risks (inference_blocks cr pinfo))
      else [''No significant risk factors identified''])"
    "recommendations (create_summary cr pinfo) =
     (if \<exists>b \<in> set (inference_blocks cr pinfo). fires b
      then concat (map block_recs (inference_blocks cr pinfo))
      else [''Routine follow-up as per age and gender appropriate guidelines''])"
    by (simp_all add: create_summary_eq)
qed

section \<open>The claims\<close>

subsection \<open>Classification\<close>

text \<open>
  C1. Classification is total and never raises: every observation, whatever its test, its
  value and the patient's sex, gets exactly one status; in particular PSA with value 5.0
  for a female patient is not classified by the sex-bounded rule and does not raise.

  The code does raise. The PSA entry has the key \<open>female\<close> with the value \<open>None\<close>, so
  \<open>sex in ref_range\<close> holds for a female patient and unpacking \<open>None\<close> into
  \<open>lower, upper\<close> raises \<open>TypeError\<close>. The four tiered branches compare the value
  without the \<open>isinstance\<close> test of the regular branch, so a captured text that is not a
  number (the patterns capture digits and dots, \<open>1.2.3\<close> for one) raises \<open>TypeError\<close>
  there. The theorem evaluates \<open>categorize_results\<close> at both inputs.
\<close>

theorem PSA_female_raises:
  "categorize_results [(''PSA'', Num 5.0)] [''sex'' \<mapsto> ''Female''] = Inl TypeError \<and>
   categorize_results [(''LDL'', Str ''1.2.3'')] [''sex'' \<mapsto> ''Male''] = Inl TypeError"
  by (simp add: results_single get_sex_def str_lower_sex categorize_entry_def
      REFERENCE_RANGES_def classify_defs)

text \<open>
  C2. When the patient's sex is missing, it defaults to male throughout the pipeline, and
  under that default the prostate block appends the elevated-PSA risk factor and the
  urology recommendation whenever PSA is classified \<open>abnormal_high\<close>.

  As stated this fails: the default belongs to classification only.
  \<open>categorize_results\<close> reads \<open>patient_info.get("sex", "MALE")\<close> and classifies PSA 5.0
  against the male bound, while the prostate block of \<open>create_summary\<close> is gated on
  \<open>patient_info.get("sex", "").upper() == "MALE"\<close> and is skipped when no sex is given.
\<close>

theorem missing_sex_prostate_counterexample:
  "categorize_results [(''PSA'', Num 5.0)] Map.empty =
     Inr [(''PSA'', \<lparr>val = Num 5.0, status = ''abnormal_high'',
            concern = ''Elevated PSA - prostate abnormality possible, including cancer''\<rparr>)] \<and>
   risk_factors (create_summary
     [(''PSA'', \<lparr>val = Num 5.0, status = ''abnormal_high'',
            concern = ''Elevated PSA - prostate abnormality possible, including cancer''\<rparr>)]
     Map.empty) = [''No significant risk factors identified''] \<and>
   recommendations (create_summary
     [(''PSA'', \<lparr>val = Num 5.0, status = ''abnormal_high'',
            concern = ''Elevated PSA - prostate abnormality possible, including cancer''\<rparr>)]
     Map.empty) = [''Routine follow-up as per age and gender appropriate guidelines'']"
  by (simp add: results_single get_sex_def str_lower_sex str_upper_sex entry_PSA_male
      create_summary_eq inference_blocks_def block_defs eval_defs)

text \<open>
  C2, amended. When the patient's sex is missing, \<open>categorize_results\<close> classifies as it
  does for the sex male; \<open>create_summary\<close> applies no default, and its prostate block
  then leaves the summary as it is. The prostate block appends the elevated-PSA risk
  factor and the urology recommendation, which are then in the summary, whenever the
  patient information carries a sex equal to MALE up to letter case and PSA is classified
  \<open>abnormal_high\<close>. That is the case in the application: \<open>main\<close> writes the choice of
  the select box into a patient information without sex before it calls either function,
  and with the choice Male the classification is that of the default and the prostate
  block fires.
\<close>

theorem prostate_block_needs_given_sex:
  "(pinfo ''sex'' = None \<longrightarrow>
      categorize_results test_results pinfo =
        categorize_results test_results (pinfo(''sex'' \<mapsto> ''male'')) \<and>
      check_prostate cr pinfo s = s) \<and>
   (\<forall>sx. pinfo ''sex'' = Some sx \<and> str_upper sx = ''MALE'' \<and>
         has_status cr ''PSA'' ''abnormal_high'' \<longrightarrow>
      risk_factors (check_prostate cr pinfo s) =
        risk_factors s @ [''Elevated PSA - prostate abnormality possible''] \<and>
      recommendations (check_prostate cr pinfo s) =
        recommendations s @ [''Urologist consultation recommended''] \<and>
      ''Elevated PSA - prostate abnormality possible''
        \<in> set (risk_factors (create_summary cr pinfo)) \<and>
      ''Urologist consultation recommended''
        \<in> set (recommendations (create_summary cr pinfo))) \<and>
   (pinfo ''sex'' = None \<and> has_status cr ''PSA'' ''abnormal_high'' \<longrightarrow>
      categorize_results test_results (main_sex pinfo ''Male'') =
        categorize_results test_results pinfo \<and>
      ''Elevated PSA - prostate abnormality possible''
        \<in> set (risk_factors (create_summary cr (main_sex pinfo ''Male''))) \<and>
      ''Urologist consultation recommended''
        \<in> set (recommendations (create_summary cr (main_sex pinfo ''Male''))))"
proof -
  have none: "categorize_results test_results pinfo =
        categorize_results test_results (pinfo(''sex'' \<mapsto> ''male'')) \<and>
      check_prostate cr pinfo s = s" if "pinfo ''sex'' = None"
    using that
    by (simp add: categorize_results_def get_sex_def str_lower_sex check_prostate_def
        str_upper_sex)
  have given: "risk_factors (check_prostate cr p s) =
        risk_factors s @ [''Elevated PSA - prostate abnormality possible''] \<and>
      recommendations (check_prostate cr p s) =
        recommendations s @ [''Urologist consultation recommended''] \<and>
      ''Elevated PSA - prostate abnormality possible''
        \<in> set (risk_factors (create_summary cr p)) \<and>
      ''Urologist consultation recommended''
        \<in> set (recommendations (create_summary cr p))"
    if sx: "p ''sex'' = Some sx" "str_upper sx = ''MALE''"
      and psa: "has_status cr ''PSA'' ''abnormal_high''" for p sx
  proof -
    from sx psa have out: "block_risks (check_prostate cr p) =
        [''Elevated PSA - prostate abnormality possible'']"
      "block_recs (check_prostate cr p) = [''Urologist consultation recommended'']"
      by (simp_all add: check_prostate_def get_sex_def eval_defs)
    then have "fires (check_prostate cr p)" by (simp add: fires_def)
    then have ex: "\<exists>b \<in> set (inference_blocks cr p). fires b"
      by (simp add: inference_blocks_def)
    have app: "risk_factors (check_prostate cr p s) =
        risk_factors s @ block_risks (check_prostate cr p)"
      "recommendations (check_prostate cr p s) =
        recommendations s @ block_recs (check_prostate cr p)"
      using appends_prostate [of cr p] by (simp_all add: appends_def)
    from ex out app show ?thesis
      by (simp add: summary_lists) (simp add: inference_blocks_def)
  qed
  have main: "categorize_results test_results (main_sex pinfo ''Male'') =
        categorize_results test_results pinfo \<and>
      ''Elevated PSA - prostate abnormality possible''
        \<in> set (risk_factors (create_summary cr (main_sex pinfo ''Male''))) \<and>
      ''Urologist consultation recommended''
        \<in> set (recommendations (create_summary cr (main_sex pinfo ''Male'')))"
    if n: "pinfo ''sex'' = None" and psa: "has_status cr ''PSA'' ''abnormal_high''"
  proof -
    from n have m: "main_sex pinfo ''Male'' = pinfo(''sex'' \<mapsto> ''Male'')"
      by (simp add: main_sex_def)
    have c: "categorize_results test_results (pinfo(''sex'' \<mapsto> ''Male'')) =
        categorize_results test_results pinfo"
      using n by (simp add: categorize_results_def get_sex_def str_lower_sex)
    from given [of "pinfo(''sex'' \<mapsto> ''Male'')" "''Male''", OF _ _ psa] c
    show ?thesis unfolding m by (simp add: str_upper_sex)
  qed
  from none given [of pinfo] main show ?thesis by blast
qed

theorem prostate_block_needs_given_sex_witness:
  "categorize_results [(''PSA'', Num 5.0)] Map.empty =
     categorize_results [(''PSA'', Num 5.0)] [''sex'' \<mapsto> ''male''] \<and>
   categorize_results [(''PSA'', Num 5.0)] [''sex'' \<mapsto> ''male''] =
     Inr [(''PSA'', \<lparr>val = Num 5.0, status = ''abnormal_high'',
            concern = ''Elevated PSA - prostate abnormality possible, including cancer''\<rparr>)] \<and>
   has_status [(''PSA'', \<lparr>val = Num 5.0, status = ''abnormal_high'',
            concern = ''Elevated PSA - prostate abnormality possible, including cancer''\<rparr>)]
     ''PSA'' ''abnormal_high'' \<and>
   ''Elevated PSA - prostate abnormality possible''
     \<in> set (risk_factors (create_summary
       [(''PSA'', \<lparr>val = Num 5.0, status = ''abnormal_high'',
            concern = ''Elevated PSA - prostate abnormality possible, including cancer''\<rparr>)]
       [''sex'' \<mapsto> ''Male''])) \<and>
   ''Urologist consultation recommended''
     \<in> set (recommendations (create_summary
       [(''PSA'', \<lparr>val = Num 5.0, status = ''abnormal_high'',
            concern = ''Elevated PSA - prostate abnormality possible, including cancer''\<rparr>)]
       [''sex'' \<mapsto> ''Male''])) \<and>
   ''Elevated PSA - prostate abnormality possible''
     \<in> set (risk_factors (create_summary
       [(''PSA'', \<lparr>val = Num 5.0, status = ''abnormal_high'',
            concern = ''Elevated PSA - prostate abnormality possible, including cancer''\<rparr>)]
       (main_sex Map.empty ''Male'')))"
proof -
  let ?cr = "[(''PSA'', \<lparr>val = Num 5.0, status = ''abnormal_high'',
            concern = ''Elevated PSA - prostate abnormality possible, including cancer''\<rparr>)]"
  have n: "(Map.empty :: patient_info) ''sex'' = None" by simp
  have g: "[''sex'' \<mapsto> ''Male''] ''sex'' = Some ''Male''" by simp
  have u: "str_upper ''Male'' = ''MALE''" by (rule str_upper_sex)
  have h: "has_status ?cr ''PSA'' ''abnormal_high''" by (simp add: has_status_def)
  have c: "categorize_results [(''PSA'', Num 5.0)] [''sex'' \<mapsto> ''male''] = Inr ?cr"
    by (simp add: results_single get_sex_def str_lower_sex entry_PSA_male)
  from prostate_block_needs_given_sex
    [of Map.empty "[(''PSA'', Num 5.0)]" ?cr empty_summary] n h
  have a: "categorize_results [(''PSA'', Num 5.0)] Map.empty =
      categorize_results [(''PSA'', Num 5.0)] [''sex'' \<mapsto> ''male'']"
    "''Elevated PSA - prostate abnormality possible''
      \<in> set (risk_factors (create_summary ?cr (main_sex Map.empty ''Male'')))"
    by simp_all
  from prostate_block_needs_given_sex
    [of "[''sex'' \<mapsto> ''Male'']" "[]" ?cr empty_summary] g u h
  have b: "''Elevated PSA - prostate abnormality possible''
      \<in> set (risk_factors (create_summary ?cr [''sex'' \<mapsto> ''Male''])) \<and>
    ''Urologist consultation recommended''
      \<in> set (recommendations (create_summary ?cr [''sex'' \<mapsto> ''Male'']))"
    by simp
  from a b c h show ?thesis by (simp only: simp_thms)
qed

text \<open>
  C3. LDL tiers. In any report that holds a numeric LDL value \<open>v\<close> and that
  \<open>categorize_results\<close> classifies, LDL is \<open>normal\<close> with empty concern when
  \<open>v \<le> 100\<close>, \<open>borderline\<close> when \<open>100 < v \<le> 130\<close>, \<open>abnormal_high\<close> when
  \<open>130 < v \<le> 170\<close> and \<open>very_abnormal_high\<close> when \<open>v > 170\<close>, the last three with the
  entry's high concern. A report with LDL alone is always classified, and the six
  boundary values 100, 101, 130, 131, 170, 171 get the statuses the claim lists.
\<close>

theorem LDL_tiers:
  assumes "distinct (map fst test_results)"
    and "(''LDL'', Num v) \<in> set test_results"
    and "categorize_results test_results pinfo = Inr res"
  shows "(v \<le> 100 \<longrightarrow> map_of res ''LDL'' =
            Some \<lparr>val = Num v, status = ''normal'', concern = ''''\<rparr>) \<and>
         (100 < v \<and> v \<le> 130 \<longrightarrow> map_of res ''LDL'' =
            Some \<lparr>val = Num v, status = ''borderline'',
                  concern = ''Elevated LDL - increased cardiovascular risk''\<rparr>) \<and>
         (130 < v \<and> v \<le> 170 \<longrightarrow> map_of res ''LDL'' =
            Some \<lparr>val = Num v, status = ''abnormal_high'',
                  concern = ''Elevated LDL - increased cardiovascular risk''\<rparr>) \<and>
         (170 < v \<longrightarrow> map_of res ''LDL'' =
            Some \<lparr>val = Num v, status = ''very_abnormal_high'',
                  concern = ''Elevated LDL - increased cardiovascular risk''\<rparr>) \<and>
         (\<exists>r. categorize_results [(''LDL'', Num v)] pinfo = Inr [(''LDL'', r)]) \<and>
         categorize_results [(''LDL'', Num 100)] pinfo =
           Inr [(''LDL'', \<lparr>val = Num 100, status = ''normal'', concern = ''''\<rparr>)] \<and>
         categorize_results [(''LDL'', Num 101)] pinfo =
           Inr [(''LDL'', \<lparr>val = Num 101, status = ''borderline'',
                  concern = ''Elevated LDL - increased cardiovascular risk''\<rparr>)] \<and>
         categorize_results [(''LDL'', Num 130)] pinfo =
           Inr [(''LDL'', \<lparr>val = Num 130, status = ''borderline'',
                  concern = ''Elevated LDL - increased cardiovascular risk''\<rparr>)] \<and>
         categorize_results [(''LDL'', Num 131)] pinfo =
           Inr [(''LDL'', \<lparr>val = Num 131, status = ''abnormal_high'',
                  concern = ''Elevated LDL - increased cardiovascular risk''\<rparr>)] \<and>
         categorize_results [(''LDL'', Num 170)] pinfo =
           Inr [(''LDL'', \<lparr>val = Num 170, status = ''abnormal_high'',
                  concern = ''Elevated LDL - increased cardiovascular risk''\<rparr>)] \<and>
         categorize_results [(''LDL'', Num 171)] pinfo =
           Inr [(''LDL'', \<lparr>val = Num 171, status = ''very_abnormal_high'',
                  concern = ''Elevated LDL - increased cardiovascular risk''\<rparr>)]"
proof -
  from categorize_results_lookup [OF assms(3) assms(1) assms(2)]
  show ?thesis by (auto simp: entry_LDL results_single)
qed

theorem LDL_tiers_witness:
  "distinct (map fst [(''HBA1C'', Num 6), (''LDL'', Num 115)]) \<and>
   (''LDL'', Num 115) \<in> set [(''HBA1C'', Num 6), (''LDL'', Num 115)] \<and>
   categorize_results [(''HBA1C'', Num 6), (''LDL'', Num 115)] Map.empty =
     Inr [(''HBA1C'', \<lparr>val = Num 6, status = ''borderline'', concern = ''Prediabetes''\<rparr>),
          (''LDL'', \<lparr>val = Num 115, status = ''borderline'',
                     concern = ''Elevated LDL - increased cardiovascular risk''\<rparr>)] \<and>
   map_of [(''HBA1C'', \<lparr>val = Num 6, status = ''borderline'', concern = ''Prediabetes''\<rparr>),
           (''LDL'', \<lparr>val = Num 115, status = ''borderline'',
                      concern = ''Elevated LDL - increased cardiovascular risk''\<rparr>)] ''LDL'' =
     Some \<lparr>val = Num 115, status = ''borderline'',
           concern = ''Elevated LDL - increased cardiovascular risk''\<rparr>"
proof -
  have d: "distinct (map fst [(''HBA1C'', Num 6), (''LDL'', Num 115)])" by simp
  have m: "(''LDL'', Num 115) \<in> set [(''HBA1C'', Num 6), (''LDL'', Num 115)]" by simp
  have c: "categorize_results [(''HBA1C'', Num 6), (''LDL'', Num 115)] Map.empty =
     Inr [(''HBA1C'', \<lparr>val = Num 6, status = ''borderline'', concern = ''Prediabetes''\<rparr>),
          (''LDL'', \<lparr>val = Num 115, status = ''borderline'',
                     concern = ''Elevated LDL - increased cardiovascular risk''\<rparr>)]"
    by (simp add: categorize_results_def entry_LDL entry_HBA1C)
  from LDL_tiers [OF d m c] d m c show ?thesis by simp
qed

text \<open>
  C4. HBA1C tiers, with strict upper boundaries. In any report that holds a numeric HBA1C
  value \<open>v\<close> and that \<open>categorize_results\<close> classifies, HBA1C is \<open>normal\<close> with empty
  concern when \<open>v < 5.7\<close>, \<open>borderline\<close> with concern Prediabetes when
  \<open>5.7 \<le> v < 6.5\<close>, and \<open>abnormal_high\<close> with concern Diabetes mellitus when
  \<open>v \<ge> 6.5\<close>. A report with HBA1C alone is always classified, and 5.6, 5.7, 6.4, 6.5
  get the statuses the claim lists.
\<close>

theorem HBA1C_tiers:
  assumes "distinct (map fst test_results)"
    and "(''HBA1C'', Num v) \<in> set test_results"
    and "categorize_results test_results pinfo = Inr res"
  shows "(v < 5.7 \<longrightarrow> map_of res ''HBA1C'' =
            Some \<lparr>val = Num v, status = ''normal'', concern = ''''\<rparr>) \<and>
         (5.7 \<le> v \<and> v < 6.5 \<longrightarrow> map_of res ''HBA1C'' =
            Some \<lparr>val = Num v, status = ''borderline'', concern = ''Prediabetes''\<rparr>) \<and>
         (6.5 \<le> v \<longrightarrow> map_of res ''HBA1C'' =
            Some \<lparr>val = Num v, status = ''abnormal_high'',
                  concern = ''Diabetes mellitus''\<rparr>) \<and>
         (\<exists>r. categorize_results [(''HBA1C'', Num v)] pinfo = Inr [(''HBA1C'', r)]) \<and>
         categorize_results [(''HBA1C'', Num 5.6)] pinfo =
           Inr [(''HBA1C'', \<lparr>val = Num 5.6, status = ''normal'', concern = ''''\<rparr>)] \<and>
         categorize_results [(''HBA1C'', Num 5.7)] pinfo =
           Inr [(''HBA1C'', \<lparr>val = Num 5.7, status = ''borderline'',
                  concern = ''Prediabetes''\<rparr>)] \<and>
         categorize_results [(''HBA1C'', Num 6.4)] pinfo =
           Inr [(''HBA1C'', \<lparr>val = Num 6.4, status = ''borderline'',
                  concern = ''Prediabetes''\<rparr>)] \<and>
         categorize_results [(''HBA1C'', Num 6.5)] pinfo =
           Inr [(''HBA1C'', \<lparr>val = Num 6.5, status = ''abnormal_high'',
                  concern = ''Diabetes mellitus''\<rparr>)]"
proof -
  from categorize_results_lookup [OF assms(3) assms(1) assms(2)]
  show ?thesis by (auto simp: entry_HBA1C results_single)
qed

theorem HBA1C_tiers_witness:
  "distinct (map fst [(''HBA1C'', Num 7.0)]) \<and>
   (''HBA1C'', Num 7.0) \<in> set [(''HBA1C'', Num 7.0)] \<and>
   categorize_results [(''HBA1C'', Num 7.0)] Map.empty =
     Inr [(''HBA1C'', \<lparr>val = Num 7.0, status = ''abnormal_high'',
            concern = ''Diabetes mellitus''\<rparr>)] \<and>
   map_of [(''HBA1C'', \<lparr>val = Num 7.0, status = ''abnormal_high'',
            concern = ''Diabetes mellitus''\<rparr>)] ''HBA1C'' =
     Some \<lparr>val = Num 7.0, status = ''abnormal_high'', concern = ''Diabetes mellitus''\<rparr>"
proof -
  have d: "distinct (map fst [(''HBA1C'', Num 7.0)])" by simp
  have m: "(''HBA1C'', Num 7.0) \<in> set [(''HBA1C'', Num 7.0)]" by simp
  have c: "categorize_results [(''HBA1C'', Num 7.0)] Map.empty =
     Inr [(''HBA1C'', \<lparr>val = Num 7.0, status = ''abnormal_high'',
            concern = ''Diabetes mellitus''\<rparr>)]"
    by (simp add: results_single entry_HBA1C)
  from HBA1C_tiers [OF d m c] d m c show ?thesis by simp
qed

text \<open>
  C5. Vitamin tiers. In any report that \<open>categorize_results\<close> classifies, a numeric
  VITAMIN_D3 value \<open>v\<close> is \<open>abnormal_low\<close> (severe deficiency) when \<open>v < 20\<close>,
  \<open>borderline_low\<close> (insufficiency) when \<open>20 \<le> v < 30\<close>, \<open>normal\<close> when
  \<open>30 \<le> v \<le> 80\<close> and \<open>abnormal_high\<close> (excess) when \<open>v > 80\<close>; a numeric
  VITAMIN_B12 value \<open>w\<close> is \<open>abnormal_low\<close> when \<open>w < 200\<close>, \<open>normal\<close> when
  \<open>200 \<le> w \<le> 900\<close> and \<open>abnormal_high\<close> with concern Elevated B12 levels when
  \<open>w > 900\<close>. A report with one of the two alone is always classified; the boundary
  values 20, 30, 80 and 200, 900 fall on the sides the claim states.
\<close>

theorem vitamin_tiers:
  assumes "distinct (map fst test_results)"
    and "categorize_results test_results pinfo = Inr res"
  shows "((''VITAMIN_D3'', Num v) \<in> set test_results \<longrightarrow>
            (v < 20 \<longrightarrow> map_of res ''VITAMIN_D3'' =
               Some \<lparr>val = Num v, status = ''abnormal_low'',
                     concern = ''Severe Vitamin D deficiency''\<rparr>) \<and>
            (20 \<le> v \<and> v < 30 \<longrightarrow> map_of res ''VITAMIN_D3'' =
               Some \<lparr>val = Num v, status = ''borderline_low'',
                     concern = ''Vitamin D insufficiency''\<rparr>) \<and>
            (30 \<le> v \<and> v \<le> 80 \<longrightarrow> map_of res ''VITAMIN_D3'' =
               Some \<lparr>val = Num v, status = ''normal'', concern = ''''\<rparr>) \<and>
            (80 < v \<longrightarrow> map_of res ''VITAMIN_D3'' =
               Some \<lparr>val = Num v, status = ''abnormal_high'',
                     concern = ''Vitamin D excess - hypercalcemia risk''\<rparr>)) \<and>
         ((''VITAMIN_B12'', Num w) \<in> set test_results \<longrightarrow>
            (w < 200 \<longrightarrow> map_of res ''VITAMIN_B12'' =
               Some \<lparr>val = Num w, status = ''abnormal_low'',
                     concern = ''B12 deficiency - neurological issues possible''\<rparr>) \<and>
            (200 \<le> w \<and> w \<le> 900 \<longrightarrow> map_of res ''VITAMIN_B12'' =
               Some \<lparr>val = Num w, status = ''normal'', concern = ''''\<rparr>) \<and>
            (900 < w \<longrightarrow> map_of res ''VITAMIN_B12'' =
               Some \<lparr>val = Num w, status = ''abnormal_high'',
                     concern = ''Elevated B12 levels''\<rparr>)) \<and>
         (\<exists>r. categorize_results [(''VITAMIN_D3'', Num v)] pinfo = Inr [(''VITAMIN_D3'', r)]) \<and>
         (\<exists>r. categorize_results [(''VITAMIN_B12'', Num w)] pinfo =
                Inr [(''VITAMIN_B12'', r)]) \<and>
         categorize_results [(''VITAMIN_D3'', Num 20)] pinfo =
           Inr [(''VITAMIN_D3'', \<lparr>val = Num 20, status = ''borderline_low'',
                  concern = ''Vitamin D insufficiency''\<rparr>)] \<and>
         categorize_results [(''VITAMIN_D3'', Num 30)] pinfo =
           Inr [(''VITAMIN_D3'', \<lparr>val = Num 30, status = ''normal'', concern = ''''\<rparr>)] \<and>
         categorize_results [(''VITAMIN_D3'', Num 80)] pinfo =
           Inr [(''VITAMIN_D3'', \<lparr>val = Num 80, status = ''normal'', concern = ''''\<rparr>)] \<and>
         categorize_results [(''VITAMIN_B12'', Num 200)] pinfo =
           Inr [(''VITAMIN_B12'', \<lparr>val = Num 200, status = ''normal'', concern = ''''\<rparr>)] \<and>
         categorize_results [(''VITAMIN_B12'', Num 900)] pinfo =
           Inr [(''VITAMIN_B12'', \<lparr>val = Num 900, status = ''normal'', concern = ''''\<rparr>)]"
proof -
  have d3: "(''VITAMIN_D3'', Num v) \<in> set test_results \<Longrightarrow>
      map_of res ''VITAMIN_D3'' = Some \<lparr>val = Num v,
        status = (if v < 20 then ''abnormal_low'' else if v < 30 then ''borderline_low''
                  else if v \<le> 80 then ''normal'' else ''abnormal_high''),
        concern = (if v < 20 then ''Severe Vitamin D deficiency''
                   else if v < 30 then ''Vitamin D insufficiency''
                   else if v \<le> 80 then ''''
                   else ''Vitamin D excess - hypercalcemia risk'')\<rparr>"
    using categorize_results_lookup [OF assms(2) assms(1), of "''VITAMIN_D3''" "Num v"]
    by (simp add: entry_VITAMIN_D3)
  have b12: "(''VITAMIN_B12'', Num w) \<in> set test_results \<Longrightarrow>
      map_of res ''VITAMIN_B12'' = Some \<lparr>val = Num w,
        status = (if w < 200 then ''abnormal_low'' else if w \<le> 900 then ''normal''
                  else ''abnormal_high''),
        concern = (if w < 200 then ''B12 deficiency - neurological issues possible''
                   else if w \<le> 900 then '''' else ''Elevated B12 levels'')\<rparr>"
    using categorize_results_lookup [OF assms(2) assms(1), of "''VITAMIN_B12''" "Num w"]
    by (simp add: entry_VITAMIN_B12)
  have s1: "\<exists>r. categorize_results [(''VITAMIN_D3'', Num v)] pinfo = Inr [(''VITAMIN_D3'', r)]"
    by (simp add: results_single entry_VITAMIN_D3)
  have s2: "\<exists>r. categorize_results [(''VITAMIN_B12'', Num w)] pinfo =
                Inr [(''VITAMIN_B12'', r)]"
    by (simp add: results_single entry_VITAMIN_B12)
  have s3: "categorize_results [(''VITAMIN_D3'', Num 20)] pinfo =
           Inr [(''VITAMIN_D3'', \<lparr>val = Num 20, status = ''borderline_low'',
                  concern = ''Vitamin D insufficiency''\<rparr>)]"
    "categorize_results [(''VITAMIN_D3'', Num 30)] pinfo =
           Inr [(''VITAMIN_D3'', \<lparr>val = Num 30, status = ''normal'', concern = ''''\<rparr>)]"
    "categorize_results [(''VITAMIN_D3'', Num 80)] pinfo =
           Inr [(''VITAMIN_D3'', \<lparr>val = Num 80, status = ''normal'', concern = ''''\<rparr>)]"
    by (simp_all add: results_single entry_VITAMIN_D3)
  have s4: "categorize_results [(''VITAMIN_B12'', Num 200)] pinfo =
           Inr [(''VITAMIN_B12'', \<lparr>val = Num 200, status = ''normal'', concern = ''''\<rparr>)]"
    "categorize_results [(''VITAMIN_B12'', Num 900)] pinfo =
           Inr [(''VITAMIN_B12'', \<lparr>val = Num 900, status = ''normal'', concern = ''''\<rparr>)]"
    by (simp_all add: results_single entry_VITAMIN_B12)
  from d3 b12 s1 s2 s3 s4 show ?thesis by simp
qed

theorem vitamin_tiers_witness:
  "distinct (map fst [(''VITAMIN_B12'', Num 200), (''VITAMIN_D3'', Num 80)]) \<and>
   categorize_results [(''VITAMIN_B12'', Num 200), (''VITAMIN_D3'', Num 80)] Map.empty =
     Inr [(''VITAMIN_B12'', \<lparr>val = Num 200, status = ''normal'', concern = ''''\<rparr>),
          (''VITAMIN_D3'', \<lparr>val = Num 80, status = ''normal'', concern = ''''\<rparr>)] \<and>
   (''VITAMIN_D3'', Num 80) \<in> set [(''VITAMIN_B12'', Num 200), (''VITAMIN_D3'', Num 80)] \<and>
   (''VITAMIN_B12'', Num 200) \<in> set [(''VITAMIN_B12'', Num 200), (''VITAMIN_D3'', Num 80)] \<and>
   map_of [(''VITAMIN_B12'', \<lparr>val = Num 200, status = ''normal'', concern = ''''\<rparr>),
           (''VITAMIN_D3'', \<lparr>val = Num 80, status = ''normal'', concern = ''''\<rparr>)]
      ''VITAMIN_D3'' = Some \<lparr>val = Num 80, status = ''normal'', concern = ''''\<rparr> \<and>
   map_of [(''VITAMIN_B12'', \<lparr>val = Num 200, status = ''normal'', concern = ''''\<rparr>),
           (''VITAMIN_D3'', \<lparr>val = Num 80, status = ''normal'', concern = ''''\<rparr>)]
      ''VITAMIN_B12'' = Some \<lparr>val = Num 200, status = ''normal'', concern = ''''\<rparr>"
proof -
  have d: "distinct (map fst [(''VITAMIN_B12'', Num 200), (''VITAMIN_D3'', Num 80)])"
    by simp
  have c: "categorize_results [(''VITAMIN_B12'', Num 200), (''VITAMIN_D3'', Num 80)]
      Map.empty =
     Inr [(''VITAMIN_B12'', \<lparr>val = Num 200, status = ''normal'', concern = ''''\<rparr>),
          (''VITAMIN_D3'', \<lparr>val = Num 80, status = ''normal'', concern = ''''\<rparr>)]"
    by (simp add: categorize_results_def entry_VITAMIN_D3 entry_VITAMIN_B12)
  from vitamin_tiers [OF d c, of 80 200] d c show ?thesis by simp
qed


text \<open>
  C9. For a sex-bounded test with a numeric value, a patient sex that (lowercased) is
  neither \<open>male\<close> nor \<open>female\<close> gives the status \<open>not_numeric\<close> with empty concern.

  This holds for every such sex that is not a key of the test's entry
  (\<open>categorize_entry_defaults\<close>), but the entry also has the keys \<open>unit\<close>,
  \<open>low_concern\<close> and \<open>high_concern\<close>, and \<open>sex in ref_range\<close> accepts them: for the
  captured sex \<open>unit\<close> the code unpacks the unit string into \<open>lower, upper\<close> and
  raises \<open>ValueError\<close> (or, when the unit has two characters as \<open>fl\<close> for MCV,
  compares the value with a character and raises \<open>TypeError\<close>). The theorem evaluates
  \<open>categorize_results\<close> at both inputs.
\<close>

theorem sex_unit_raises:
  "categorize_results [(''HAEMOGLOBIN'', Num 14)] [''sex'' \<mapsto> ''unit''] = Inl ValueError \<and>
   categorize_results [(''MCV'', Num 85)] [''sex'' \<mapsto> ''unit''] = Inl TypeError"
  by (simp add: results_single get_sex_def str_lower_sex categorize_entry_def
      REFERENCE_RANGES_def sex_entry_def classify_defs)

subsection \<open>Risk aggregation\<close>

text \<open>
  C6. Whenever HAEMOGLOBIN is classified \<open>abnormal_low\<close>, the anemia block appends a risk
  factor branched on the MCV status, the third branch (normocytic) covering every other
  case.

  As stated this fails: the three branches sit under \<open>if "MCV" in categorized_results\<close>,
  so a report with a low haemoglobin and no MCV gets no anemia risk factor, and the
  summary falls back to the sentinel.
\<close>

theorem anemia_without_MCV_counterexample:
  "categorize_results [(''HAEMOGLOBIN'', Num 11.0)] [''sex'' \<mapsto> ''male''] =
     Inr [(''HAEMOGLOBIN'', \<lparr>val = Num 11.0, status = ''abnormal_low'',
             concern = ''Anemia possible''\<rparr>)] \<and>
   has_status [(''HAEMOGLOBIN'', \<lparr>val = Num 11.0, status = ''abnormal_low'',
             concern = ''Anemia possible''\<rparr>)] ''HAEMOGLOBIN'' ''abnormal_low'' \<and>
   risk_factors (create_summary
     [(''HAEMOGLOBIN'', \<lparr>val = Num 11.0, status = ''abnormal_low'',
             concern = ''Anemia possible''\<rparr>)] [''sex'' \<mapsto> ''male'']) =
     [''No significant risk factors identified''] \<and>
   ''Normocytic anemia possible'' \<notin> set (risk_factors (create_summary
     [(''HAEMOGLOBIN'', \<lparr>val = Num 11.0, status = ''abnormal_low'',
             concern = ''Anemia possible''\<rparr>)] [''sex'' \<mapsto> ''male'']))"
  by (simp add: results_single get_sex_def str_lower_sex entry_HAEMOGLOBIN_male
      create_summary_eq inference_blocks_def block_defs eval_defs)

text \<open>
  C6, amended. Whenever HAEMOGLOBIN is classified \<open>abnormal_low\<close> and MCV is among the
  classified observations, the anemia block appends, to whatever the two lists hold, the
  microcytic risk factor and the iron-deficiency recommendation when MCV is
  \<open>abnormal_low\<close>, the macrocytic risk factor and the B12/folate recommendation when MCV
  is \<open>abnormal_high\<close>, and otherwise the risk factor Normocytic anemia possible and no
  recommendation; the risk factor (and the recommendation of the first two cases) is then
  in the summary. When MCV is absent the block leaves the summary as it is. For the
  observations HAEMOGLOBIN 11.0 (male) and MCV 70 the microcytic risk factor and the
  iron-deficiency recommendation are present.
\<close>

theorem anemia_block_with_MCV:
  assumes "has_status cr ''HAEMOGLOBIN'' ''abnormal_low''"
  shows "(map_of cr ''MCV'' = None \<longrightarrow> check_anemia cr s = s) \<and>
   (\<forall>mcv. map_of cr ''MCV'' = Some mcv \<longrightarrow>
      (status mcv = ''abnormal_low'' \<longrightarrow>
         risk_factors (check_anemia cr s) = risk_factors s @
           [''Microcytic anemia possible - consider iron deficiency''] \<and>
         recommendations (check_anemia cr s) = recommendations s @
           [''Further investigation for iron deficiency anemia recommended''] \<and>
         ''Microcytic anemia possible - consider iron deficiency''
           \<in> set (risk_factors (create_summary cr pinfo)) \<and>
         ''Further investigation for iron deficiency anemia recommended''
           \<in> set (recommendations (create_summary cr pinfo))) \<and>
      (status mcv = ''abnormal_high'' \<longrightarrow>
         risk_factors (check_anemia cr s) = risk_factors s @
           [''Macrocytic anemia possible - consider B12/folate deficiency''] \<and>
         recommendations (check_anemia cr s) = recommendations s @
           [''Further investigation for vitamin B12 or folate deficiency recommended''] \<and>
         ''Macrocytic anemia possible - consider B12/folate deficiency''
           \<in> set (risk_factors (create_summary cr pinfo)) \<and>
         ''Further investigation for vitamin B12 or folate deficiency recommended''
           \<in> set (recommendations (create_summary cr pinfo))) \<and>
      (status mcv \<noteq> ''abnormal_low'' \<and> status mcv \<noteq> ''abnormal_high'' \<longrightarrow>
         risk_factors (check_anemia cr s) = risk_factors s @ [''Normocytic anemia possible''] \<and>
         recommendations (check_anemia cr s) = recommendations s \<and>
         ''Normocytic anemia possible'' \<in> set (risk_factors (create_summary cr pinfo))))"
proof -
  have absent: "check_anemia cr s = s" if "map_of cr ''MCV'' = None"
    using that by (simp add: check_anemia_def)
  have present: "fires (check_anemia cr) \<and>
      risk_factors (create_summary cr pinfo) = block_risks (check_anemia cr) @
        concat (map block_risks (tl (inference_blocks cr pinfo))) \<and>
      recommendations (create_summary cr pinfo) = block_recs (check_anemia cr) @
        concat (map block_recs (tl (inference_blocks cr pinfo)))"
    if "map_of cr ''MCV'' = Some mcv" for mcv
  proof -
    from assms that have f: "fires (check_anemia cr)"
      by (simp add: fires_def check_anemia_def eval_defs)
    then have "\<exists>b \<in> set (inference_blocks cr pinfo). fires b"
      by (simp add: inference_blocks_def)
    with f show ?thesis
      by (simp add: summary_lists) (simp add: inference_blocks_def)
  qed
  have low: "block_risks (check_anemia cr) =
        [''Microcytic anemia possible - consider iron deficiency''] \<and>
      block_recs (check_anemia cr) =
        [''Further investigation for iron deficiency anemia recommended'']"
    if "map_of cr ''MCV'' = Some mcv" "status mcv = ''abnormal_low''" for mcv
    using assms that by (simp add: check_anemia_def eval_defs)
  have high: "block_risks (check_anemia cr) =
        [''Macrocytic anemia possible - consider B12/folate deficiency''] \<and>
      block_recs (check_anemia cr) =
        [''Further investigation for vitamin B12 or folate deficiency recommended'']"
    if "map_of cr ''MCV'' = Some mcv" "status mcv = ''abnormal_high''" for mcv
    using assms that by (simp add: check_anemia_def eval_defs)
  have other: "block_risks (check_anemia cr) = [''Normocytic anemia possible''] \<and>
      block_recs (check_anemia cr) = []"
    if "map_of cr ''MCV'' = Some mcv" "status mcv \<noteq> ''abnormal_low''"
      "status mcv \<noteq> ''abnormal_high''" for mcv
    using assms that by (simp add: check_anemia_def eval_defs)
  have app: "risk_factors (check_anemia cr s) = risk_factors s @ block_risks (check_anemia cr)"
    "recommendations (check_anemia cr s) = recommendations s @ block_recs (check_anemia cr)"
    using appends_anemia [of cr] by (simp_all add: appends_def)
  show ?thesis
  proof (intro conjI allI impI)
    show "check_anemia cr s = s" if "map_of cr ''MCV'' = None"
      using that by (rule absent)
  qed (use present low high other app in \<open>simp_all\<close>)
qed

theorem anemia_block_with_MCV_witness:
  "categorize_results [(''HAEMOGLOBIN'', Num 11.0), (''MCV'', Num 70)] [''sex'' \<mapsto> ''male''] =
     Inr [(''HAEMOGLOBIN'', \<lparr>val = Num 11.0, status = ''abnormal_low'',
             concern = ''Anemia possible''\<rparr>),
          (''MCV'', \<lparr>val = Num 70, status = ''abnormal_low'',
             concern = ''Microcytic anemia possible''\<rparr>)] \<and>
   has_status [(''HAEMOGLOBIN'', \<lparr>val = Num 11.0, status = ''abnormal_low'',
             concern = ''Anemia possible''\<rparr>),
          (''MCV'', \<lparr>val = Num 70, status = ''abnormal_low'',
             concern = ''Microcytic anemia possible''\<rparr>)] ''HAEMOGLOBIN'' ''abnormal_low'' \<and>
   map_of [(''HAEMOGLOBIN'', \<lparr>val = Num 11.0, status = ''abnormal_low'',
             concern = ''Anemia possible''\<rparr>),
          (''MCV'', \<lparr>val = Num 70, status = ''abnormal_low'',
             concern = ''Microcytic anemia possible''\<rparr>)] ''MCV'' =
     Some \<lparr>val = Num 70, status = ''abnormal_low'',
             concern = ''Microcytic anemia possible''\<rparr> \<and>
   ''Microcytic anemia possible - consider iron deficiency''
     \<in> set (risk_factors (create_summary
         [(''HAEMOGLOBIN'', \<lparr>val = Num 11.0, status = ''abnormal_low'',
             concern = ''Anemia possible''\<rparr>),
          (''MCV'', \<lparr>val = Num 70, status = ''abnormal_low'',
             concern = ''Microcytic anemia possible''\<rparr>)] [''sex'' \<mapsto> ''male''])) \<and>
   ''Further investigation for iron deficiency anemia recommended''
     \<in> set (recommendations (create_summary
         [(''HAEMOGLOBIN'', \<lparr>val = Num 11.0, status = ''abnormal_low'',
             concern = ''Anemia possible''\<rparr>),
          (''MCV'', \<lparr>val = Num 70, status = ''abnormal_low'',
             concern = ''Microcytic anemia possible''\<rparr>)] [''sex'' \<mapsto> ''male'']))"
proof -
  let ?cr = "[(''HAEMOGLOBIN'', \<lparr>val = Num 11.0, status = ''abnormal_low'',
             concern = ''Anemia possible''\<rparr>),
          (''MCV'', \<lparr>val = Num 70, status = ''abnormal_low'',
             concern = ''Microcytic anemia possible''\<rparr>)]"
  have c: "categorize_results [(''HAEMOGLOBIN'', Num 11.0), (''MCV'', Num 70)]
      [''sex'' \<mapsto> ''male''] = Inr ?cr"
    by (simp add: categorize_results_def get_sex_def str_lower_sex entry_HAEMOGLOBIN_male
        entry_MCV_male)
  have h: "has_status ?cr ''HAEMOGLOBIN'' ''abnormal_low''"
    by (simp add: has_status_def)
  have m: "map_of ?cr ''MCV'' = Some \<lparr>val = Num 70, status = ''abnormal_low'',
             concern = ''Microcytic anemia possible''\<rparr>"
    by simp
  from anemia_block_with_MCV [OF h, of empty_summary "[''sex'' \<mapsto> ''male'']"] m
  have "''Microcytic anemia possible - consider iron deficiency''
           \<in> set (risk_factors (create_summary ?cr [''sex'' \<mapsto> ''male''])) \<and>
         ''Further investigation for iron deficiency anemia recommended''
           \<in> set (recommendations (create_summary ?cr [''sex'' \<mapsto> ''male'']))"
    by simp
  with c h m show ?thesis by (simp only: simp_thms)
qed

text \<open>
  C7. \<open>abnormal_tests\<close> is exactly the part of the classified observations whose status
  contains \<open>abnormal\<close> or \<open>borderline\<close>, kept in their order, and \<open>abnormal_count\<close> is
  its size. If none of the ten blocks fires, the risk factors are exactly the sentinel
  No significant risk factors identified and the recommendations exactly the routine
  follow-up. With no abnormal or borderline observation at all, no block can fire: the
  lists are the sentinel pair and the count is 0.
\<close>

theorem abnormal_tests_and_sentinel:
  "abnormal_tests (create_summary cr pinfo) = filter (\<lambda>(k, v). is_abnormal v) cr \<and>
   set (abnormal_tests (create_summary cr pinfo)) =
     {(k, v). (k, v) \<in> set cr \<and>
        ((\<exists>p q. status v = p @ ''abnormal'' @ q) \<or>
         (\<exists>p q. status v = p @ ''borderline'' @ q))} \<and>
   abnormal_count (create_summary cr pinfo) =
     length (abnormal_tests (create_summary cr pinfo)) \<and>
   ((\<forall>b \<in> set (inference_blocks cr pinfo). \<not> fires b) \<longrightarrow>
      risk_factors (create_summary cr pinfo) = [''No significant risk factors identified''] \<and>
      recommendations (create_summary cr pinfo) =
        [''Routine follow-up as per age and gender appropriate guidelines'']) \<and>
   ((\<forall>(k, v) \<in> set cr. \<not> is_abnormal v) \<longrightarrow>
      risk_factors (create_summary cr pinfo) = [''No significant risk factors identified''] \<and>
      recommendations (create_summary cr pinfo) =
        [''Routine follow-up as per age and gender appropriate guidelines''] \<and>
      abnormal_tests (create_summary cr pinfo) = [] \<and>
      abnormal_count (create_summary cr pinfo) = 0)"
proof -
  have a: "abnormal_tests (create_summary cr pinfo) = filter (\<lambda>(k, v). is_abnormal v) cr"
    by (simp add: create_summary_eq)
  have b: "set (abnormal_tests (create_summary cr pinfo)) =
     {(k, v). (k, v) \<in> set cr \<and>
        ((\<exists>p q. status v = p @ ''abnormal'' @ q) \<or>
         (\<exists>p q. status v = p @ ''borderline'' @ q))}"
    unfolding a is_abnormal_iff [symmetric] by auto
  have c: "abnormal_count (create_summary cr pinfo) =
     length (abnormal_tests (create_summary cr pinfo))"
    by (simp add: create_summary_eq)
  have d: "risk_factors (create_summary cr pinfo) =
        [''No significant risk factors identified''] \<and>
      recommendations (create_summary cr pinfo) =
        [''Routine follow-up as per age and gender appropriate guidelines'']"
    if "\<forall>b \<in> set (inference_blocks cr pinfo). \<not> fires b"
    using that by (simp add: summary_lists)
  have e: "\<forall>b \<in> set (inference_blocks cr pinfo). \<not> fires b"
    if "\<forall>(k, v) \<in> set cr. \<not> is_abnormal v"
    using that fires_needs_abnormal [of _ cr pinfo] by fast
  have f: "filter (\<lambda>(k, v). is_abnormal v) cr = []"
    if "\<forall>(k, v) \<in> set cr. \<not> is_abnormal v"
    using that by (auto simp: filter_empty_conv)
  from a b c d e f show ?thesis by (simp only: list.size) blast
qed

theorem abnormal_tests_and_sentinel_witness:
  "categorize_results [(''HAEMOGLOBIN'', Num 14), (''ECG_RHYTHM'', Str ''Regular'')]
        [''sex'' \<mapsto> ''Male''] =
     Inr [(''HAEMOGLOBIN'', \<lparr>val = Num 14, status = ''normal'', concern = ''''\<rparr>),
          (''ECG_RHYTHM'', \<lparr>val = Str ''Regular'', status = ''no_reference'',
             concern = ''''\<rparr>)] \<and>
   \<not> (\<exists>b \<in> set (inference_blocks
        [(''HAEMOGLOBIN'', \<lparr>val = Num 14, status = ''normal'', concern = ''''\<rparr>),
         (''ECG_RHYTHM'', \<lparr>val = Str ''Regular'', status = ''no_reference'', concern = ''''\<rparr>)]
        [''sex'' \<mapsto> ''Male'']). fires b) \<and>
   \<not> (\<exists>(k, v) \<in> set
        [(''HAEMOGLOBIN'', \<lparr>val = Num 14, status = ''normal'', concern = ''''\<rparr>),
         (''ECG_RHYTHM'', \<lparr>val = Str ''Regular'', status = ''no_reference'', concern = ''''\<rparr>)].
        is_abnormal v) \<and>
   risk_factors (create_summary
        [(''HAEMOGLOBIN'', \<lparr>val = Num 14, status = ''normal'', concern = ''''\<rparr>),
         (''ECG_RHYTHM'', \<lparr>val = Str ''Regular'', status = ''no_reference'', concern = ''''\<rparr>)]
        [''sex'' \<mapsto> ''Male'']) = [''No significant risk factors identified''] \<and>
   recommendations (create_summary
        [(''HAEMOGLOBIN'', \<lparr>val = Num 14, status = ''normal'', concern = ''''\<rparr>),
         (''ECG_RHYTHM'', \<lparr>val = Str ''Regular'', status = ''no_reference'', concern = ''''\<rparr>)]
        [''sex'' \<mapsto> ''Male'']) =
     [''Routine follow-up as per age and gender appropriate guidelines''] \<and>
   abnormal_count (create_summary
        [(''HAEMOGLOBIN'', \<lparr>val = Num 14, status = ''normal'', concern = ''''\<rparr>),
         (''ECG_RHYTHM'', \<lparr>val = Str ''Regular'', status = ''no_reference'', concern = ''''\<rparr>)]
        [''sex'' \<mapsto> ''Male'']) = 0"
proof -
  let ?cr = "[(''HAEMOGLOBIN'', \<lparr>val = Num 14, status = ''normal'', concern = ''''\<rparr>),
         (''ECG_RHYTHM'', \<lparr>val = Str ''Regular'', status = ''no_reference'', concern = ''''\<rparr>)]"
  have e: "map_of REFERENCE_RANGES ''ECG_RHYTHM'' = None"
    by (simp add: REFERENCE_RANGES_def)
  have c: "categorize_results [(''HAEMOGLOBIN'', Num 14), (''ECG_RHYTHM'', Str ''Regular'')]
        [''sex'' \<mapsto> ''Male''] = Inr ?cr"
    by (simp add: categorize_results_def get_sex_def str_lower_sex entry_HAEMOGLOBIN_male
        categorize_entry_defaults(1) [OF e])
  have n: "\<forall>(k, v) \<in> set ?cr. \<not> is_abnormal v"
    by (simp add: is_abnormal_def)
  have b: "\<forall>b \<in> set (inference_blocks ?cr [''sex'' \<mapsto> ''Male'']). \<not> fires b"
    by (simp add: inference_blocks_def fires_def block_defs eval_defs get_sex_def
        str_upper_sex)
  from abnormal_tests_and_sentinel [of ?cr "[''sex'' \<mapsto> ''Male'']"] n b
  have "risk_factors (create_summary ?cr [''sex'' \<mapsto> ''Male'']) =
      [''No significant risk factors identified''] \<and>
    recommendations (create_summary ?cr [''sex'' \<mapsto> ''Male'']) =
      [''Routine follow-up as per age and gender appropriate guidelines''] \<and>
    abnormal_count (create_summary ?cr [''sex'' \<mapsto> ''Male'']) = 0"
    by simp
  with c n b show ?thesis by simp
qed

text \<open>
  C8. The two lists are built by appending only: each of the ten blocks leaves what the
  lists hold and adds its own output at the end, the same output whatever ran before it,
  so nothing is removed, altered or deduplicated (with LDL \<open>very_abnormal_high\<close> and
  HBA1C \<open>borderline\<close> the lifestyle recommendation appears twice). When a block fires,
  the lists of the summary are the outputs of the blocks in the order anemia, leukocyte,
  dyslipidemia, diabetes, prostate, vitamin D, vitamin B12, kidney, liver, thyroid. Two
  inputs that hold the same observations in a different key order give the same lists.
  The diabetes block after the dyslipidemia block appends exactly its own output.
\<close>

theorem lists_follow_block_order:
  "(\<forall>b \<in> set (inference_blocks cr pinfo). \<forall>s.
      b s = s\<lparr>risk_factors := risk_factors s @ block_risks b,
              recommendations := recommendations s @ block_recs b\<rparr>) \<and>
   risk_factors (create_summary cr pinfo) =
     (if \<exists>b \<in> set (inference_blocks cr pinfo). fires b
      then concat (map block_risks
        [check_anemia cr, check_infection cr, check_cardiovascular cr, check_diabetes cr,
         check_prostate cr pinfo, check_vitamin_d cr, check_vitamin_b12 cr, check_kidney cr,
         check_liver cr, check_thyroid cr])
      else [''No significant risk factors identified'']) \<and>
   recommendations (create_summary cr pinfo) =
     (if \<exists>b \<in> set (inference_blocks cr pinfo). fires b
      then concat (map block_recs
        [check_anemia cr, check_infection cr, check_cardiovascular cr, check_diabetes cr,
         check_prostate cr pinfo, check_vitamin_d cr, check_vitamin_b12 cr, check_kidney cr,
         check_liver cr, check_thyroid cr])
      else [''Routine follow-up as per age and gender appropriate guidelines'']) \<and>
   (map_of cr' = map_of cr \<longrightarrow>
      risk_factors (create_summary cr' pinfo) = risk_factors (create_summary cr pinfo) \<and>
      recommendations (create_summary cr' pinfo) =
        recommendations (create_summary cr pinfo)) \<and>
   risk_factors (check_diabetes cr (check_cardiovascular cr s)) =
     risk_factors s @ block_risks (check_cardiovascular cr) @ block_risks (check_diabetes cr) \<and>
   recommendations (check_diabetes cr (check_cardiovascular cr s)) =
     recommendations s @ block_recs (check_cardiovascular cr) @
       block_recs (check_diabetes cr) \<and>
   recommendations (create_summary
       [(''LDL'', \<lparr>val = Num 180, status = ''very_abnormal_high'',
                  concern = ''Elevated LDL - increased cardiovascular risk''\<rparr>),
        (''HBA1C'', \<lparr>val = Num 6, status = ''borderline'', concern = ''Prediabetes''\<rparr>)]
       pinfo) =
     [''Lifestyle modifications recommended; consider dietary changes and exercise'',
      ''Consider consultation with cardiologist for lipid management'',
      ''Lifestyle modifications recommended; consider dietary changes and exercise'',
      ''Follow-up HbA1c test in 3-6 months'']"
proof -
  have a: "\<forall>b \<in> set (inference_blocks cr pinfo). \<forall>s.
      b s = s\<lparr>risk_factors := risk_factors s @ block_risks b,
              recommendations := recommendations s @ block_recs b\<rparr>"
    using inference_blocks_append [of _ cr pinfo] by (simp add: appends_def)
  have b: "risk_factors (create_summary cr pinfo) =
     (if \<exists>b \<in> set (inference_blocks cr pinfo). fires b
      then concat (map block_risks
        [check_anemia cr, check_infection cr, check_cardiovascular cr, check_diabetes cr,
         check_prostate cr pinfo, check_vitamin_d cr, check_vitamin_b12 cr, check_kidney cr,
         check_liver cr, check_thyroid cr])
      else [''No significant risk factors identified''])"
    by (simp only: summary_lists(1)) (simp only: inference_blocks_def)
  have c: "recommendations (create_summary cr pinfo) =
     (if \<exists>b \<in> set (inference_blocks cr pinfo). fires b
      then concat (map block_recs
        [check_anemia cr, check_infection cr, check_cardiovascular cr, check_diabetes cr,
         check_prostate cr pinfo, check_vitamin_d cr, check_vitamin_b12 cr, check_kidney cr,
         check_liver cr, check_thyroid cr])
      else [''Routine follow-up as per age and gender appropriate guidelines''])"
    by (simp only: summary_lists(2)) (simp only: inference_blocks_def)
  have d: "risk_factors (create_summary cr' pinfo) = risk_factors (create_summary cr pinfo) \<and>
      recommendations (create_summary cr' pinfo) =
        recommendations (create_summary cr pinfo)"
    if "map_of cr' = map_of cr"
    by (simp only: summary_lists blocks_same_map [OF that])
  have e: "check_diabetes cr (check_cardiovascular cr s) =
      s\<lparr>risk_factors := risk_factors s @ block_risks (check_cardiovascular cr) @
           block_risks (check_diabetes cr),
        recommendations := recommendations s @ block_recs (check_cardiovascular cr) @
           block_recs (check_diabetes cr)\<rparr>"
    using appends_cardiovascular [of cr] appends_diabetes [of cr]
    by (simp add: appends_def)
  have f: "recommendations (create_summary
       [(''LDL'', \<lparr>val = Num 180, status = ''very_abnormal_high'',
                  concern = ''Elevated LDL - increased cardiovascular risk''\<rparr>),
        (''HBA1C'', \<lparr>val = Num 6, status = ''borderline'', concern = ''Prediabetes''\<rparr>)]
       pinfo) =
     [''Lifestyle modifications recommended; consider dietary changes and exercise'',
      ''Consider consultation with cardiologist for lipid management'',
      ''Lifestyle modifications recommended; consider dietary changes and exercise'',
      ''Follow-up HbA1c test in 3-6 months'']"
    by (simp add: create_summary_eq inference_blocks_def block_defs eval_defs)
  from a b c d f show ?thesis by (simp only: e) simp
qed

theorem lists_follow_block_order_witness:
  "map_of [(''HBA1C'', \<lparr>val = Num 6, status = ''borderline'', concern = ''Prediabetes''\<rparr>),
           (''LDL'', \<lparr>val = Num 180, status = ''very_abnormal_high'',
                      concern = ''Elevated LDL - increased cardiovascular risk''\<rparr>)] =
   map_of [(''LDL'', \<lparr>val = Num 180, status = ''very_abnormal_high'',
                      concern = ''Elevated LDL - increased cardiovascular risk''\<rparr>),
           (''HBA1C'', \<lparr>val = Num 6, status = ''borderline'', concern = ''Prediabetes''\<rparr>)] \<and>
   risk_factors (create_summary
          [(''HBA1C'', \<lparr>val = Num 6, status = ''borderline'', concern = ''Prediabetes''\<rparr>),
           (''LDL'', \<lparr>val = Num 180, status = ''very_abnormal_high'',
                      concern = ''Elevated LDL - increased cardiovascular risk''\<rparr>)]
          [''sex'' \<mapsto> ''Male'']) =
     [''Dyslipidemia - increased cardiovascular risk'', ''Prediabetes''] \<and>
   recommendations (create_summary
          [(''HBA1C'', \<lparr>val = Num 6, status = ''borderline'', concern = ''Prediabetes''\<rparr>),
           (''LDL'', \<lparr>val = Num 180, status = ''very_abnormal_high'',
                      concern = ''Elevated LDL - increased cardiovascular risk''\<rparr>)]
          [''sex'' \<mapsto> ''Male'']) =
     [''Lifestyle modifications recommended; consider dietary changes and exercise'',
      ''Consider consultation with cardiologist for lipid management'',
      ''Lifestyle modifications recommended; consider dietary changes and exercise'',
      ''Follow-up HbA1c test in 3-6 months'']"
proof -
  let ?cr = "[(''LDL'', \<lparr>val = Num 180, status = ''very_abnormal_high'',
                      concern = ''Elevated LDL - increased cardiovascular risk''\<rparr>),
           (''HBA1C'', \<lparr>val = Num 6, status = ''borderline'', concern = ''Prediabetes''\<rparr>)]"
  let ?cr' = "[(''HBA1C'', \<lparr>val = Num 6, status = ''borderline'', concern = ''Prediabetes''\<rparr>),
           (''LDL'', \<lparr>val = Num 180, status = ''very_abnormal_high'',
                      concern = ''Elevated LDL - increased cardiovascular risk''\<rparr>)]"
  have m: "map_of ?cr' = map_of ?cr"
    by (rule ext) simp
  have f: "\<exists>b \<in> set (inference_blocks ?cr [''sex'' \<mapsto> ''Male'']). fires b"
    by (simp add: inference_blocks_def fires_def block_defs eval_defs)
  have r: "concat (map block_risks
        [check_anemia ?cr, check_infection ?cr, check_cardiovascular ?cr, check_diabetes ?cr,
         check_prostate ?cr [''sex'' \<mapsto> ''Male''], check_vitamin_d ?cr,
         check_vitamin_b12 ?cr, check_kidney ?cr, check_liver ?cr, check_thyroid ?cr]) =
      [''Dyslipidemia - increased cardiovascular risk'', ''Prediabetes'']"
    by (simp add: block_defs eval_defs)
  have c: "concat (map block_recs
        [check_anemia ?cr, check_infection ?cr, check_cardiovascular ?cr, check_diabetes ?cr,
         check_prostate ?cr [''sex'' \<mapsto> ''Male''], check_vitamin_d ?cr,
         check_vitamin_b12 ?cr, check_kidney ?cr, check_liver ?cr, check_thyroid ?cr]) =
      [''Lifestyle modifications recommended; consider dietary changes and exercise'',
       ''Consider consultation with cardiologist for lipid management'',
       ''Lifestyle modifications recommended; consider dietary changes and exercise'',
       ''Follow-up HbA1c test in 3-6 months'']"
    by (simp add: block_defs eval_defs)
  from lists_follow_block_order [of ?cr "[''sex'' \<mapsto> ''Male'']" ?cr' empty_summary] m f
  show ?thesis by (simp only: r c) simp
qed

text \<open>
  C10. The recommendations can be empty while the risk factors are not: when HAEMOGLOBIN
  is \<open>abnormal_low\<close>, MCV is present with a status that is neither \<open>abnormal_low\<close> nor
  \<open>abnormal_high\<close>, and none of the nine other blocks fires, the summary has the risk
  factors \<open>["Normocytic anemia possible"]\<close> and no recommendation; the sentinel pair is
  not appended. The observations HAEMOGLOBIN 11.0 (male) and MCV 85 are such an input.
\<close>

theorem normocytic_without_recommendation:
  assumes "has_status cr ''HAEMOGLOBIN'' ''abnormal_low''"
    and "map_of cr ''MCV'' = Some mcv"
    and "status mcv \<noteq> ''abnormal_low''" and "status mcv \<noteq> ''abnormal_high''"
    and "\<forall>b \<in> set [check_infection cr, check_cardiovascular cr, check_diabetes cr,
           check_prostate cr pinfo, check_vitamin_d cr, check_vitamin_b12 cr,
           check_kidney cr, check_liver cr, check_thyroid cr]. \<not> fires b"
  shows "risk_factors (create_summary cr pinfo) = [''Normocytic anemia possible''] \<and>
         recommendations (create_summary cr pinfo) = []"
proof -
  from assms(1-4) have a: "block_risks (check_anemia cr) = [''Normocytic anemia possible'']"
    "block_recs (check_anemia cr) = []"
    by (simp_all add: check_anemia_def eval_defs)
  from no_block_fires_lists [OF assms(5)] have rest:
    "concat (map block_risks [check_infection cr, check_cardiovascular cr, check_diabetes cr,
           check_prostate cr pinfo, check_vitamin_d cr, check_vitamin_b12 cr,
           check_kidney cr, check_liver cr, check_thyroid cr]) = []"
    "concat (map block_recs [check_infection cr, check_cardiovascular cr, check_diabetes cr,
           check_prostate cr pinfo, check_vitamin_d cr, check_vitamin_b12 cr,
           check_kidney cr, check_liver cr, check_thyroid cr]) = []"
    by simp_all
  have r: "concat (map block_risks (inference_blocks cr pinfo)) =
      [''Normocytic anemia possible'']"
    using a(1) rest(1) by (simp add: inference_blocks_def)
  have c: "concat (map block_recs (inference_blocks cr pinfo)) = []"
    using a(2) rest(2) by (simp add: inference_blocks_def)
  show ?thesis by (simp add: create_summary_eq r c)
qed

theorem normocytic_without_recommendation_witness:
  "categorize_results [(''HAEMOGLOBIN'', Num 11.0), (''MCV'', Num 85)] [''sex'' \<mapsto> ''male''] =
     Inr [(''HAEMOGLOBIN'', \<lparr>val = Num 11.0, status = ''abnormal_low'',
             concern = ''Anemia possible''\<rparr>),
          (''MCV'', \<lparr>val = Num 85, status = ''normal'', concern = ''''\<rparr>)] \<and>
   risk_factors (create_summary
         [(''HAEMOGLOBIN'', \<lparr>val = Num 11.0, status = ''abnormal_low'',
             concern = ''Anemia possible''\<rparr>),
          (''MCV'', \<lparr>val = Num 85, status = ''normal'', concern = ''''\<rparr>)]
         [''sex'' \<mapsto> ''male'']) = [''Normocytic anemia possible''] \<and>
   recommendations (create_summary
         [(''HAEMOGLOBIN'', \<lparr>val = Num 11.0, status = ''abnormal_low'',
             concern = ''Anemia possible''\<rparr>),
          (''MCV'', \<lparr>val = Num 85, status = ''normal'', concern = ''''\<rparr>)]
         [''sex'' \<mapsto> ''male'']) = []"
proof -
  let ?cr = "[(''HAEMOGLOBIN'', \<lparr>val = Num 11.0, status = ''abnormal_low'',
             concern = ''Anemia possible''\<rparr>),
          (''MCV'', \<lparr>val = Num 85, status = ''normal'', concern = ''''\<rparr>)]"
  let ?p = "[''sex'' \<mapsto> ''male'']"
  have c: "categorize_results [(''HAEMOGLOBIN'', Num 11.0), (''MCV'', Num 85)] ?p = Inr ?cr"
    by (simp add: categorize_results_def get_sex_def str_lower_sex entry_HAEMOGLOBIN_male
        entry_MCV_male)
  have h: "has_status ?cr ''HAEMOGLOBIN'' ''abnormal_low''"
    by (simp add: has_status_def)
  have m: "map_of ?cr ''MCV'' = Some \<lparr>val = Num 85, status = ''normal'', concern = ''''\<rparr>"
    by simp
  have s1: "status \<lparr>val = Num 85, status = ''normal'', concern = ''''\<rparr> \<noteq> ''abnormal_low''"
    and s2: "status \<lparr>val = Num 85, status = ''normal'', concern = ''''\<rparr> \<noteq> ''abnormal_high''"
    by simp_all
  have n: "\<forall>b \<in> set [check_infection ?cr, check_cardiovascular ?cr, check_diabetes ?cr,
           check_prostate ?cr ?p, check_vitamin_d ?cr, check_vitamin_b12 ?cr,
           check_kidney ?cr, check_liver ?cr, check_thyroid ?cr]. \<not> fires b"
    by (simp add: fires_def block_defs eval_defs)
  from normocytic_without_recommendation [OF h m s1 s2 n] c show ?thesis
    by (simp only: simp_thms)
qed

end
